theory Spec2Isabelle
  imports Main "HOL-Library.Code_Target_Nat"
begin

section \<open>Python values and text\<close>

text \<open>
  The program is \<^verbatim>\<open>src/bot.py\<close>: a Telegram bot that keeps procurement requests in the
  first worksheet of a Google spreadsheet.  The worksheet is read with
  \<^verbatim>\<open>get_all_values()\<close> (a list of rows, each a list of cell texts), extended with
  \<^verbatim>\<open>append_row\<close> and changed with \<^verbatim>\<open>update_cell\<close>.

  Text is modelled as \<open>string\<close>.  The characters of the model are the ASCII
  characters: on them Python's \<^verbatim>\<open>str.strip\<close>, \<^verbatim>\<open>str.lower\<close>, \<^verbatim>\<open>str.upper\<close> and the
  regular expression classes \<^verbatim>\<open>\s\<close> and \<^verbatim>\<open>\d\<close> are what is written below.  The
  functions leave every other character alone; Unicode case mapping and Unicode
  white space and digits beyond ASCII are outside the model.

  Python dictionaries whose keys are fixed strings are association lists in the
  order in which the source writes the keys.
\<close>

datatype py_value =
    PStr string
  | PInt int
  | PList "py_value list"
  | PDict "(string \<times> py_value) list"

type_synonym dict = "(string \<times> py_value) list"

datatype py_exception =
    Store_Error
  | Key_Error string
  | Type_Error
  | Value_Error
  | Overflow_Error
  | Incorrect_Cell_Label

text \<open>\<^verbatim>\<open>d[k]\<close>: the value, or KeyError.\<close>

definition getitem :: "dict \<Rightarrow> string \<Rightarrow> py_exception + py_value" where
  "getitem d k = (case map_of d k of None \<Rightarrow> Inl (Key_Error k) | Some v \<Rightarrow> Inr v)"

text \<open>\<^verbatim>\<open>d[k] = v\<close>: an existing key keeps its place, a new key goes last.\<close>

fun setitem :: "dict \<Rightarrow> string \<Rightarrow> py_value \<Rightarrow> dict" where
  "setitem [] k v = [(k, v)]"
| "setitem ((k', v') # d) k v = (if k' = k then (k, v) # d else (k', v') # setitem d k v)"

text \<open>
  White space as \<^verbatim>\<open>str.strip()\<close>, \<^verbatim>\<open>str.isspace()\<close> and \<^verbatim>\<open>\s\<close> see it among the ASCII
  characters: tab, line feed, vertical tab, form feed, carriage return, the four
  separators 0x1C to 0x1F, and the space.
\<close>

definition is_space :: "char \<Rightarrow> bool" where
  "is_space c = (let n = (of_char c :: nat) in (9 \<le> n \<and> n \<le> 13) \<or> (28 \<le> n \<and> n \<le> 32))"

definition strip :: "string \<Rightarrow> string" where
  "strip s = rev (dropWhile is_space (rev (dropWhile is_space s)))"

definition lower_char :: "char \<Rightarrow> char" where
  "lower_char c =
     (let n = (of_char c :: nat) in if 65 \<le> n \<and> n \<le> 90 then char_of (n + 32) else c)"

definition upper_char :: "char \<Rightarrow> char" where
  "upper_char c =
     (let n = (of_char c :: nat) in if 97 \<le> n \<and> n \<le> 122 then char_of (n - 32) else c)"

definition lower :: "string \<Rightarrow> string" where
  "lower s = map lower_char s"

definition upper :: "string \<Rightarrow> string" where
  "upper s = map upper_char s"

text \<open>\<^verbatim>\<open>needle in hay\<close> on strings: \<open>needle\<close> occurs in \<open>hay\<close> as a contiguous run.\<close>

fun is_prefix :: "string \<Rightarrow> string \<Rightarrow> bool" where
  "is_prefix [] hay = True"
| "is_prefix (c # cs) [] = False"
| "is_prefix (c # cs) (h # hs) = (c = h \<and> is_prefix cs hs)"

fun contains :: "string \<Rightarrow> string \<Rightarrow> bool" where
  "contains [] needle = (needle = [])"
| "contains (h # hs) needle = (is_prefix needle (h # hs) \<or> contains hs needle)"

text \<open>Decimal digits of a natural number, as \<^verbatim>\<open>str(n)\<close> writes them.\<close>

fun str_nat :: "nat \<Rightarrow> string" where
  "str_nat n =
     (if n < 10 then [char_of (48 + n)]
      else str_nat (n div 10) @ [char_of (48 + n mod 10)])"

declare str_nat.simps [simp del]

text \<open>The same function with the test taken out of the recursion: the form in which
  it is evaluated on a numeral.\<close>

definition str_nat_step :: "bool \<Rightarrow> nat \<Rightarrow> string" where
  "str_nat_step small n =
     (if small then [char_of (48 + n)] else str_nat (n div 10) @ [char_of (48 + n mod 10)])"

definition str_int :: "int \<Rightarrow> string" where
  "str_int i = (if i < 0 then CHR ''-'' # str_nat (nat (- i)) else str_nat (nat i))"

text \<open>\<^verbatim>\<open>str(v)\<close> for the values that reach a cell: a string is itself, an integer its
  decimal digits.  Lists and dictionaries never reach a cell; their text is not
  modelled and is the empty string here.\<close>

fun py_str :: "py_value \<Rightarrow> string" where
  "py_str (PStr s) = s"
| "py_str (PInt i) = str_int i"
| "py_str (PList xs) = []"
| "py_str (PDict d) = []"

text \<open>\<^verbatim>\<open>s.zfill(w)\<close> on a run of digits, and the format \<^verbatim>\<open>{n:03d}\<close> of a count.\<close>

definition zfill :: "nat \<Rightarrow> string \<Rightarrow> string" where
  "zfill w s = replicate (w - length s) CHR ''0'' @ s"

definition fmt_03d :: "nat \<Rightarrow> string" where
  "fmt_03d n = zfill 3 (str_nat n)"

section \<open>The worksheet\<close>

text \<open>
  The state of the remote store is the worksheet as \<^verbatim>\<open>get_all_values()\<close> returns
  it, row 1 (the header) first, and a script of the outcomes of the round trips to
  come: each connection, read and write takes the next entry, \<open>True\<close> meaning that
  this round trip raises; once the script is used up every round trip succeeds.
  A write is stored as it is sent, and a round trip that raises changes nothing.
\<close>

type_synonym sheet_row = "string list"

record store =
  sheet :: "sheet_row list"
  faults :: "bool list"

datatype worksheet = Worksheet

definition round_trip :: "store \<Rightarrow> bool \<times> store" where
  "round_trip s =
     (case faults s of [] \<Rightarrow> (False, s) | f # fs \<Rightarrow> (f, s\<lparr>faults := fs\<rparr>))"

text \<open>\<^verbatim>\<open>get_google_sheet\<close> (lines 69-93): the handle, or \<^verbatim>\<open>None\<close> when anything
  on the way to it raised.\<close>

definition get_google_sheet :: "store \<Rightarrow> worksheet option \<times> store" where
  "get_google_sheet s =
     (case round_trip s of (failed, s') \<Rightarrow>
        if failed then (None, s') else (Some Worksheet, s'))"

definition get_all_values :: "worksheet \<Rightarrow> store \<Rightarrow> (py_exception + sheet_row list) \<times> store" where
  "get_all_values ws s =
     (case round_trip s of (failed, s') \<Rightarrow>
        if failed then (Inl Store_Error, s') else (Inr (sheet s'), s'))"

definition append_row :: "worksheet \<Rightarrow> sheet_row \<Rightarrow> store \<Rightarrow> (py_exception + unit) \<times> store" where
  "append_row ws r s =
     (case round_trip s of (failed, s') \<Rightarrow>
        if failed then (Inl Store_Error, s')
        else (Inr (), s'\<lparr>sheet := sheet s' @ [r]\<rparr>))"

text \<open>
  The text of the cell at row \<open>r\<close> and column \<open>c\<close>, both counted from 1: a cell
  that \<^verbatim>\<open>get_all_values()\<close> does not list is blank.
\<close>

definition cell :: "sheet_row list \<Rightarrow> nat \<Rightarrow> nat \<Rightarrow> string" where
  "cell rows r c =
     (if 1 \<le> r \<and> r \<le> length rows \<and> 1 \<le> c \<and> c \<le> length (rows ! (r - 1))
      then rows ! (r - 1) ! (c - 1) else [])"

text \<open>Writing one cell (indices from 0): missing rows and cells before it are
  blank.\<close>

definition set_cell :: "nat \<Rightarrow> nat \<Rightarrow> string \<Rightarrow> sheet_row list \<Rightarrow> sheet_row list" where
  "set_cell i j v rows =
     (let rows' = rows @ replicate (Suc i - length rows) [];
          r = rows' ! i;
          r' = r @ replicate (Suc j - length r) []
      in rows'[i := r'[j := v]])"

text \<open>\<^verbatim>\<open>worksheet.update_cell(row, col, value)\<close>: gspread turns the position into
  a cell label first and raises for a row or column below 1 before anything is
  sent.\<close>

definition update_cell ::
  "worksheet \<Rightarrow> int \<Rightarrow> int \<Rightarrow> string \<Rightarrow> store \<Rightarrow> (py_exception + unit) \<times> store" where
  "update_cell ws r c v s =
     (if r < 1 \<or> c < 1 then (Inl Incorrect_Cell_Label, s)
      else case round_trip s of (failed, s') \<Rightarrow>
        if failed then (Inl Store_Error, s')
        else (Inr (), s'\<lparr>sheet := set_cell (nat (r - 1)) (nat (c - 1)) v (sheet s')\<rparr>))"

text \<open>\<^verbatim>\<open>try: body  except Exception as e: log; return fallback\<close>.\<close>

definition try_except ::
  "(store \<Rightarrow> (py_exception + 'a) \<times> store) \<Rightarrow> 'a \<Rightarrow> store \<Rightarrow> (py_exception + 'a) \<times> store" where
  "try_except body fallback s =
     (case body s of
        (Inl e, s') \<Rightarrow> (Inr fallback, s')
      | (Inr v, s') \<Rightarrow> (Inr v, s'))"

section \<open>Order numbers and the append\<close>

text \<open>\<^verbatim>\<open>get_next_order_number\<close> (lines 96-110).\<close>

definition get_next_order_number_body :: "store \<Rightarrow> (py_exception + string) \<times> store" where
  "get_next_order_number_body s =
     (case get_google_sheet s of
        (None, s1) \<Rightarrow> (Inr ''#001'', s1)
      | (Some worksheet, s1) \<Rightarrow>
          (case get_all_values worksheet s1 of
             (Inl e, s2) \<Rightarrow> (Inl e, s2)
           | (Inr all_values, s2) \<Rightarrow>
               (let order_count = length all_values
                in (Inr (CHR ''#'' # fmt_03d order_count), s2))))"

definition get_next_order_number :: "store \<Rightarrow> (py_exception + string) \<times> store" where
  "get_next_order_number = try_except get_next_order_number_body ''#???''"

text \<open>The row of \<^verbatim>\<open>save_to_sheet\<close> (lines 125-136): the keys are read in this
  order, and the first one missing raises KeyError.\<close>

definition build_row :: "string \<Rightarrow> dict \<Rightarrow> py_exception + sheet_row" where
  "build_row order_number data =
     (case getitem data ''timestamp'' of Inl e \<Rightarrow> Inl e | Inr timestamp \<Rightarrow>
     (case getitem data ''mitarbeiter'' of Inl e \<Rightarrow> Inl e | Inr mitarbeiter \<Rightarrow>
     (case getitem data ''chat_id'' of Inl e \<Rightarrow> Inl e | Inr chat_id \<Rightarrow>
     (case getitem data ''artikel'' of Inl e \<Rightarrow> Inl e | Inr artikel \<Rightarrow>
     (case getitem data ''menge'' of Inl e \<Rightarrow> Inl e | Inr menge \<Rightarrow>
     (case getitem data ''dringlichkeit'' of Inl e \<Rightarrow> Inl e | Inr dringlichkeit \<Rightarrow>
     (case getitem data ''kostenstelle'' of Inl e \<Rightarrow> Inl e | Inr kostenstelle \<Rightarrow>
        Inr [order_number, py_str timestamp, py_str mitarbeiter, py_str chat_id,
             py_str artikel, py_str menge, py_str dringlichkeit, py_str kostenstelle,
             [], []])))))))"

text \<open>\<^verbatim>\<open>save_to_sheet\<close> (lines 113-144).\<close>

definition save_to_sheet_body :: "dict \<Rightarrow> store \<Rightarrow> (py_exception + bool \<times> string) \<times> store" where
  "save_to_sheet_body data s =
     (case get_google_sheet s of
        (None, s1) \<Rightarrow> (Inr (False, []), s1)
      | (Some worksheet, s1) \<Rightarrow>
          (case get_next_order_number s1 of
             (Inl e, s2) \<Rightarrow> (Inl e, s2)
           | (Inr order_number, s2) \<Rightarrow>
               (case build_row order_number data of
                  Inl e \<Rightarrow> (Inl e, s2)
                | Inr row \<Rightarrow>
                    (case append_row worksheet row s2 of
                       (Inl e, s3) \<Rightarrow> (Inl e, s3)
                     | (Inr u, s3) \<Rightarrow> (Inr (True, order_number), s3)))))"

definition save_to_sheet :: "dict \<Rightarrow> store \<Rightarrow> (py_exception + bool \<times> string) \<times> store" where
  "save_to_sheet data = try_except (save_to_sheet_body data) (False, [])"

section \<open>Pending requests\<close>

text \<open>The dictionary \<^verbatim>\<open>get_pending_orders_for_user\<close> builds for a row (lines 166-174).\<close>

definition pending_entry :: "int \<Rightarrow> sheet_row \<Rightarrow> dict" where
  "pending_entry i row =
     [(''row'', PInt i),
      (''order_number'', PStr (row ! 0)),
      (''timestamp'', PStr (row ! 1)),
      (''artikel'', PStr (row ! 4)),
      (''menge'', PStr (row ! 5)),
      (''dringlichkeit'', PStr (row ! 6)),
      (''kostenstelle'', PStr (row ! 7))]"

text \<open>The loop of lines 159-174 over \<^verbatim>\<open>enumerate(all_values[1:], start=2)\<close>: \<open>i\<close> is
  the position of the row at the head of the list.\<close>

fun pending_loop :: "int \<Rightarrow> int \<Rightarrow> sheet_row list \<Rightarrow> dict list \<Rightarrow> dict list" where
  "pending_loop chat_id i [] pending = pending"
| "pending_loop chat_id i (row # rows) pending =
     pending_loop chat_id (i + 1) rows
       (if length row \<ge> 9 then
          (let row_chat_id = (if length row > 3 then row ! 3 else []);
               bestellt = (if length row > 8 then row ! 8 else [])
           in if str_int chat_id = row_chat_id \<and> strip bestellt = []
              then pending @ [pending_entry i row] else pending)
        else pending)"

text \<open>\<^verbatim>\<open>get_pending_orders_for_user\<close> (lines 147-179).\<close>

definition get_pending_orders_for_user_body ::
  "int \<Rightarrow> store \<Rightarrow> (py_exception + dict list) \<times> store" where
  "get_pending_orders_for_user_body chat_id s =
     (case get_google_sheet s of
        (None, s1) \<Rightarrow> (Inr [], s1)
      | (Some worksheet, s1) \<Rightarrow>
          (case get_all_values worksheet s1 of
             (Inl e, s2) \<Rightarrow> (Inl e, s2)
           | (Inr all_values, s2) \<Rightarrow>
               if length all_values \<le> 1 then (Inr [], s2)
               else (Inr (pending_loop chat_id 2 (drop 1 all_values) []), s2)))"

definition get_pending_orders_for_user ::
  "int \<Rightarrow> store \<Rightarrow> (py_exception + dict list) \<times> store" where
  "get_pending_orders_for_user chat_id =
     try_except (get_pending_orders_for_user_body chat_id) []"

section \<open>Dates and times\<close>

text \<open>
  A \<^verbatim>\<open>datetime\<close> without time zone.  \<^verbatim>\<open>toordinal\<close> and \<^verbatim>\<open>weekday\<close> are
  CPython's (\<^verbatim>\<open>_ymd2ord\<close>, Monday is 0).
\<close>

record datetime =
  year :: nat
  month :: nat
  day :: nat
  hour :: nat
  minute :: nat
  second :: nat
  microsecond :: nat

definition is_leap :: "nat \<Rightarrow> bool" where
  "is_leap y = (y mod 4 = 0 \<and> (y mod 100 \<noteq> 0 \<or> y mod 400 = 0))"

definition days_in_month :: "nat \<Rightarrow> nat \<Rightarrow> nat" where
  "days_in_month y m =
     (if m = 2 then (if is_leap y then 29 else 28)
      else if m = 4 \<or> m = 6 \<or> m = 9 \<or> m = 11 then 30 else 31)"

definition days_before_year :: "nat \<Rightarrow> int" where
  "days_before_year y =
     (let y' = int y - 1 in y' * 365 + y' div 4 - y' div 100 + y' div 400)"

definition days_before_month :: "nat \<Rightarrow> nat \<Rightarrow> int" where
  "days_before_month y m = int (sum_list (map (days_in_month y) [1..<m]))"

definition toordinal :: "datetime \<Rightarrow> int" where
  "toordinal dt = days_before_year (year dt) + days_before_month (year dt) (month dt) + int (day dt)"

definition weekday :: "datetime \<Rightarrow> int" where
  "weekday dt = (toordinal dt + 6) mod 7"

text \<open>
  A point in time as the day's ordinal and the time of day.  Python compares two
  \<^verbatim>\<open>datetime\<close>s field by field from the year down; on dates of the calendar the
  ordinal orders the days the same way, so the comparison is written on
  \<open>instant\<close>s, which also hold the result of subtracting a number of days.
\<close>

type_synonym instant = "int \<times> nat \<times> nat \<times> nat \<times> nat"

definition instant_of :: "datetime \<Rightarrow> instant" where
  "instant_of dt = (toordinal dt, hour dt, minute dt, second dt, microsecond dt)"

fun instant_less :: "instant \<Rightarrow> instant \<Rightarrow> bool" where
  "instant_less (d, h, m, s, u) (d', h', m', s', u') =
     (d < d' \<or> (d = d' \<and> (h < h' \<or> (h = h' \<and> (m < m' \<or> (m = m' \<and>
        (s < s' \<or> (s = s' \<and> u < u'))))))))"

definition instant_ge :: "instant \<Rightarrow> instant \<Rightarrow> bool" where
  "instant_ge a b = (\<not> instant_less a b)"

text \<open>\<^verbatim>\<open>strftime\<close> with the two formats of the source, \<^verbatim>\<open>"%Y-%m-%d %H:%M:%S"\<close>
  (line 467) and \<^verbatim>\<open>"%Y-%m-%d %H:%M"\<close> (line 191).  The year is written with four
  digits, which is what every platform does from the year 1000 on.\<close>

definition strftime_minutes :: "datetime \<Rightarrow> string" where
  "strftime_minutes dt =
     zfill 4 (str_nat (year dt)) @ ''-'' @ zfill 2 (str_nat (month dt)) @ ''-'' @
     zfill 2 (str_nat (day dt)) @ '' '' @ zfill 2 (str_nat (hour dt)) @ '':'' @
     zfill 2 (str_nat (minute dt))"

definition strftime_seconds :: "datetime \<Rightarrow> string" where
  "strftime_seconds dt = strftime_minutes dt @ '':'' @ zfill 2 (str_nat (second dt))"

text \<open>
  \<^verbatim>\<open>datetime.strptime(text, "%Y-%m-%d %H:%M:%S")\<close>.  CPython compiles the format to
  the regular expression
  \<^verbatim>\<open>(?P<Y>\d\d\d\d)-(?P<m>1[0-2]|0[1-9]|[1-9])-(?P<d>3[01]|[12]\d|0[1-9]|[1-9]| [1-9])\s+(?P<H>2[0-3]|[0-1]\d|\d):(?P<M>[0-5]\d|\d):(?P<S>6[0-1]|[0-5]\d|\d)\<close>,
  matches it at the start of the text, raises ValueError when it does not match or
  when text is left over, and raises ValueError again when the numbers are not a
  date and time (year 0, a day the month does not have, second 60 or 61).
  The fields have no character in common with the separator after them, so each
  field is the text up to its separator and has to be one of its alternatives.
\<close>

definition is_digit :: "char \<Rightarrow> bool" where
  "is_digit c = (let n = (of_char c :: nat) in 48 \<le> n \<and> n \<le> 57)"

definition digit_val :: "char \<Rightarrow> nat" where
  "digit_val c = of_char c - 48"

definition in_range :: "char \<Rightarrow> nat \<Rightarrow> nat \<Rightarrow> bool" where
  "in_range c lo hi = (lo \<le> digit_val c \<and> digit_val c \<le> hi \<and> is_digit c)"

definition two_digits :: "char \<Rightarrow> char \<Rightarrow> nat" where
  "two_digits a b = 10 * digit_val a + digit_val b"

text \<open>\<^verbatim>\<open>1[0-2]|0[1-9]|[1-9]\<close>\<close>

fun month_field :: "string \<Rightarrow> nat option" where
  "month_field [a] = (if in_range a 1 9 then Some (digit_val a) else None)"
| "month_field [a, b] =
     (if (a = CHR ''1'' \<and> in_range b 0 2) \<or> (a = CHR ''0'' \<and> in_range b 1 9)
      then Some (two_digits a b) else None)"
| "month_field t = None"

text \<open>\<^verbatim>\<open>3[01]|[12]\d|0[1-9]|[1-9]| [1-9]\<close>\<close>

fun day_field :: "string \<Rightarrow> nat option" where
  "day_field [a] = (if in_range a 1 9 then Some (digit_val a) else None)"
| "day_field [a, b] =
     (if (a = CHR ''3'' \<and> in_range b 0 1) \<or> (in_range a 1 2 \<and> is_digit b)
         \<or> (a = CHR ''0'' \<and> in_range b 1 9)
      then Some (two_digits a b)
      else if a = CHR '' '' \<and> in_range b 1 9 then Some (digit_val b) else None)"
| "day_field t = None"

text \<open>\<^verbatim>\<open>2[0-3]|[0-1]\d|\d\<close>\<close>

fun hour_field :: "string \<Rightarrow> nat option" where
  "hour_field [a] = (if is_digit a then Some (digit_val a) else None)"
| "hour_field [a, b] =
     (if (a = CHR ''2'' \<and> in_range b 0 3) \<or> (in_range a 0 1 \<and> is_digit b)
      then Some (two_digits a b) else None)"
| "hour_field t = None"

text \<open>\<^verbatim>\<open>[0-5]\d|\d\<close>\<close>

fun minute_field :: "string \<Rightarrow> nat option" where
  "minute_field [a] = (if is_digit a then Some (digit_val a) else None)"
| "minute_field [a, b] =
     (if in_range a 0 5 \<and> is_digit b then Some (two_digits a b) else None)"
| "minute_field t = None"

text \<open>\<^verbatim>\<open>6[0-1]|[0-5]\d|\d\<close>, the last field: nothing may follow it.\<close>

fun second_field :: "string \<Rightarrow> nat option" where
  "second_field [a] = (if is_digit a then Some (digit_val a) else None)"
| "second_field [a, b] =
     (if (a = CHR ''6'' \<and> in_range b 0 1) \<or> (in_range a 0 5 \<and> is_digit b)
      then Some (two_digits a b) else None)"
| "second_field t = None"

text \<open>The day field and the white space after it: the field is the digits up to
  the white space, or a space and one digit.\<close>

definition split_day :: "string \<Rightarrow> (string \<times> string) option" where
  "split_day t =
     (let (d, rest) = (case t of
                         a # b # r \<Rightarrow> if a = CHR '' '' then ([a, b], r)
                                       else (takeWhile is_digit t, dropWhile is_digit t)
                       | _ \<Rightarrow> (takeWhile is_digit t, dropWhile is_digit t))
      in case rest of
           [] \<Rightarrow> None
         | c # cs \<Rightarrow> if is_space c then Some (d, dropWhile is_space rest) else None)"

text \<open>The text up to the first \<open>sep\<close>, and the text after it.\<close>

definition split_at :: "char \<Rightarrow> string \<Rightarrow> (string \<times> string) option" where
  "split_at sep t =
     (case dropWhile (\<lambda>c. c \<noteq> sep) t of
        [] \<Rightarrow> None
      | c # rest \<Rightarrow> Some (takeWhile (\<lambda>c. c \<noteq> sep) t, rest))"

text \<open>The match of the regular expression: the six numbers, or no match.\<close>

definition strptime_fields :: "string \<Rightarrow> (nat \<times> nat \<times> nat \<times> nat \<times> nat \<times> nat) option" where
  "strptime_fields t =
     (case t of
        y1 # y2 # y3 # y4 # sep # t1 \<Rightarrow>
          if is_digit y1 \<and> is_digit y2 \<and> is_digit y3 \<and> is_digit y4 \<and> sep = CHR ''-'' then
            (case split_at CHR ''-'' t1 of None \<Rightarrow> None | Some (mo, t2) \<Rightarrow>
            (case split_day t2 of None \<Rightarrow> None | Some (da, t3) \<Rightarrow>
            (case split_at CHR '':'' t3 of None \<Rightarrow> None | Some (ho, t4) \<Rightarrow>
            (case split_at CHR '':'' t4 of None \<Rightarrow> None | Some (mi, se) \<Rightarrow>
            (case (month_field mo, day_field da, hour_field ho, minute_field mi, second_field se) of
               (Some m, Some d, Some H, Some M, Some S) \<Rightarrow>
                 Some (1000 * digit_val y1 + 100 * digit_val y2 + 10 * digit_val y3
                       + digit_val y4, m, d, H, M, S)
             | _ \<Rightarrow> None)))))
          else None
      | _ \<Rightarrow> None)"

definition strptime :: "string \<Rightarrow> py_exception + datetime" where
  "strptime t =
     (case strptime_fields t of
        None \<Rightarrow> Inl Value_Error
      | Some (y, m, d, H, M, S) \<Rightarrow>
          if y < 1 \<or> d > days_in_month y m \<or> S > 59 then Inl Value_Error
          else Inr \<lparr>year = y, month = m, day = d, hour = H, minute = M, second = S,
                    microsecond = 0\<rparr>)"

section \<open>Cancellation and search\<close>

text \<open>\<^verbatim>\<open>cancel_order\<close> (lines 182-196); \<open>now\<close> is what \<^verbatim>\<open>datetime.now()\<close> returns.\<close>

definition cancel_order_body :: "int \<Rightarrow> datetime \<Rightarrow> store \<Rightarrow> (py_exception + bool) \<times> store" where
  "cancel_order_body row_number now s =
     (case get_google_sheet s of
        (None, s1) \<Rightarrow> (Inr False, s1)
      | (Some worksheet, s1) \<Rightarrow>
          (case update_cell worksheet row_number 9 ''STORNIERT'' s1 of
             (Inl e, s2) \<Rightarrow> (Inl e, s2)
           | (Inr u, s2) \<Rightarrow>
               (case update_cell worksheet row_number 10 (strftime_minutes now) s2 of
                  (Inl e, s3) \<Rightarrow> (Inl e, s3)
                | (Inr u', s3) \<Rightarrow> (Inr True, s3))))"

definition cancel_order :: "int \<Rightarrow> datetime \<Rightarrow> store \<Rightarrow> (py_exception + bool) \<times> store" where
  "cancel_order row_number now = try_except (cancel_order_body row_number now) False"

text \<open>The dictionary \<^verbatim>\<open>search_orders\<close> builds for a row (lines 220-230).\<close>

definition search_entry :: "int \<Rightarrow> sheet_row \<Rightarrow> dict" where
  "search_entry i row =
     [(''row'', PInt i),
      (''order_number'', PStr (row ! 0)),
      (''timestamp'', PStr (row ! 1)),
      (''mitarbeiter'', PStr (row ! 2)),
      (''artikel'', PStr (row ! 4)),
      (''menge'', PStr (row ! 5)),
      (''dringlichkeit'', PStr (row ! 6)),
      (''kostenstelle'', PStr (row ! 7)),
      (''bestellt'', PStr (if length row > 8 then row ! 8 else []))]"

text \<open>The loop of lines 213-230.\<close>

fun search_loop :: "string \<Rightarrow> int \<Rightarrow> sheet_row list \<Rightarrow> dict list \<Rightarrow> dict list" where
  "search_loop search_lower i [] results = results"
| "search_loop search_lower i (row # rows) results =
     search_loop search_lower (i + 1) rows
       (if length row \<ge> 8 then
          (let artikel = (if length row > 4 then lower (row ! 4) else []);
               mitarbeiter = (if length row > 2 then lower (row ! 2) else []);
               kostenstelle = (if length row > 7 then lower (row ! 7) else [])
           in if contains artikel search_lower \<or> contains mitarbeiter search_lower
                 \<or> contains kostenstelle search_lower
              then results @ [search_entry i row] else results)
        else results)"

text \<open>\<^verbatim>\<open>search_orders\<close> (lines 199-235).\<close>

definition search_orders_body :: "string \<Rightarrow> store \<Rightarrow> (py_exception + dict list) \<times> store" where
  "search_orders_body search_term s =
     (case get_google_sheet s of
        (None, s1) \<Rightarrow> (Inr [], s1)
      | (Some worksheet, s1) \<Rightarrow>
          (case get_all_values worksheet s1 of
             (Inl e, s2) \<Rightarrow> (Inl e, s2)
           | (Inr all_values, s2) \<Rightarrow>
               if length all_values \<le> 1 then (Inr [], s2)
               else (let search_lower = lower search_term;
                         results = search_loop search_lower 2 (drop 1 all_values) []
                     in (Inr (take 10 results), s2))))"

definition search_orders :: "string \<Rightarrow> store \<Rightarrow> (py_exception + dict list) \<times> store" where
  "search_orders search_term = try_except (search_orders_body search_term) []"

section \<open>The weekly summary\<close>

text \<open>Line 251: \<^verbatim>\<open>today.replace(hour=0, minute=0, second=0) - timedelta(days=today.weekday())\<close>.
  The microsecond of \<open>today\<close> stays; the subtraction raises OverflowError when it
  leaves the calendar (before day 1).\<close>

definition week_start_of :: "datetime \<Rightarrow> py_exception + instant" where
  "week_start_of today =
     (let d = toordinal today - weekday today
      in if d < 1 then Inl Overflow_Error else Inr (d, 0, 0, 0, microsecond today))"

text \<open>\<^verbatim>\<open>by_kostenstelle[ks] = by_kostenstelle.get(ks, 0) + 1\<close>\<close>

fun bump :: "(string \<times> nat) list \<Rightarrow> string \<Rightarrow> (string \<times> nat) list" where
  "bump [] ks = [(ks, 1)]"
| "bump ((k, n) # d) ks = (if k = ks then (k, n + 1) # d else (k, n) # bump d ks)"

record tally =
  total :: nat
  pending :: nat
  ordered :: nat
  cancelled :: nat
  by_kostenstelle :: "(string \<times> nat) list"

text \<open>One turn of the loop of lines 259-277.  The inner \<^verbatim>\<open>try\<close> with its bare
  \<^verbatim>\<open>except: pass\<close> turns the ValueError of \<^verbatim>\<open>strptime\<close> into skipping the row.\<close>

definition weekly_step :: "instant \<Rightarrow> tally \<Rightarrow> sheet_row \<Rightarrow> tally" where
  "weekly_step week_start acc row =
     (if length row \<ge> 9 then
        (case strptime (row ! 1) of
           Inl e \<Rightarrow> acc
         | Inr order_date \<Rightarrow>
             if instant_ge (instant_of order_date) week_start then
               (let acc1 = acc\<lparr>total := total acc + 1\<rparr>;
                    status = upper (strip (row ! 8));
                    acc2 = (if status = [] then acc1\<lparr>pending := pending acc1 + 1\<rparr>
                            else if status = ''STORNIERT''
                            then acc1\<lparr>cancelled := cancelled acc1 + 1\<rparr>
                            else acc1\<lparr>ordered := ordered acc1 + 1\<rparr>);
                    ks = row ! 7
                in acc2\<lparr>by_kostenstelle := bump (by_kostenstelle acc2) ks\<rparr>)
             else acc)
      else acc)"

definition tally_dict :: "tally \<Rightarrow> dict" where
  "tally_dict acc =
     [(''total'', PInt (int (total acc))),
      (''pending'', PInt (int (pending acc))),
      (''ordered'', PInt (int (ordered acc))),
      (''cancelled'', PInt (int (cancelled acc))),
      (''by_kostenstelle'', PDict (map (\<lambda>(k, n). (k, PInt (int n))) (by_kostenstelle acc)))]"

definition zero_tally :: tally where
  "zero_tally = \<lparr>total = 0, pending = 0, ordered = 0, cancelled = 0, by_kostenstelle = []\<rparr>"

text \<open>\<^verbatim>\<open>get_weekly_summary\<close> (lines 238-288); \<open>now\<close> is what \<^verbatim>\<open>datetime.now()\<close>
  returns on line 250.\<close>

definition get_weekly_summary_body :: "datetime \<Rightarrow> store \<Rightarrow> (py_exception + dict) \<times> store" where
  "get_weekly_summary_body now s =
     (case get_google_sheet s of
        (None, s1) \<Rightarrow> (Inr [], s1)
      | (Some worksheet, s1) \<Rightarrow>
          (case get_all_values worksheet s1 of
             (Inl e, s2) \<Rightarrow> (Inl e, s2)
           | (Inr all_values, s2) \<Rightarrow>
               if length all_values \<le> 1
               then (Inr [(''total'', PInt 0), (''pending'', PInt 0), (''ordered'', PInt 0),
                          (''cancelled'', PInt 0)], s2)
               else (case week_start_of now of
                       Inl e \<Rightarrow> (Inl e, s2)
                     | Inr week_start \<Rightarrow>
                         (Inr (tally_dict (foldl (weekly_step week_start) zero_tally
                                             (drop 1 all_values))), s2))))"

definition get_weekly_summary :: "datetime \<Rightarrow> store \<Rightarrow> (py_exception + dict) \<times> store" where
  "get_weekly_summary now = try_except (get_weekly_summary_body now) []"

section \<open>The conversation handlers\<close>

text \<open>
  The handlers that end a flow.  Their state is \<^verbatim>\<open>context.user_data\<close>, the
  per-user scratch dictionary, and the store.  Messages sent through the chat
  transport are no part of that state and are left out; a transport call is taken
  to return.  A handler returns the next conversation state, or the exception that
  leaves it.
\<close>

datatype conv_state =
    ARTIKEL | MENGE | DRINGLICHKEIT | KOSTENSTELLE | FOTO | BESTAETIGUNG | STORNO_AUSWAHL
  | ConversationHandler_END

record tg_user =
  first_name :: string
  last_name :: "string option"

text \<open>\<^verbatim>\<open>save_order\<close> (lines 448-525).\<close>

definition save_order ::
  "int \<Rightarrow> tg_user \<Rightarrow> datetime \<Rightarrow> dict \<Rightarrow> store \<Rightarrow> (py_exception + conv_state) \<times> dict \<times> store" where
  "save_order chat_id user now user_data s =
     (case getitem user_data ''artikel'' of Inl e \<Rightarrow> (Inl e, user_data, s) | Inr artikel \<Rightarrow>
     (case getitem user_data ''menge'' of Inl e \<Rightarrow> (Inl e, user_data, s) | Inr menge \<Rightarrow>
     (case getitem user_data ''dringlichkeit'' of Inl e \<Rightarrow> (Inl e, user_data, s)
      | Inr dringlichkeit \<Rightarrow>
     (case getitem user_data ''kostenstelle'' of Inl e \<Rightarrow> (Inl e, user_data, s)
      | Inr kostenstelle \<Rightarrow>
        (let data =
               [(''timestamp'', PStr (strftime_seconds now)),
                (''mitarbeiter'',
                   PStr (strip (first_name user @ '' '' @
                                (case last_name user of None \<Rightarrow> [] | Some l \<Rightarrow> l)))),
                (''chat_id'', PInt chat_id),
                (''artikel'', artikel),
                (''menge'', menge),
                (''dringlichkeit'', dringlichkeit),
                (''kostenstelle'', kostenstelle),
                (''foto_id'', (case map_of user_data ''foto_id'' of
                                 None \<Rightarrow> PStr [] | Some v \<Rightarrow> v))]
         in case save_to_sheet data s of
              (Inl e, s') \<Rightarrow> (Inl e, user_data, s')
            | (Inr (success, order_number), s') \<Rightarrow> (Inr ConversationHandler_END, [], s'))))))"

text \<open>\<^verbatim>\<open>confirmation_callback\<close> (lines 419-445); \<open>query_data\<close> is \<^verbatim>\<open>query.data\<close>.\<close>

definition confirmation_callback ::
  "string \<Rightarrow> int \<Rightarrow> tg_user \<Rightarrow> datetime \<Rightarrow> dict \<Rightarrow> store
     \<Rightarrow> (py_exception + conv_state) \<times> dict \<times> store" where
  "confirmation_callback query_data chat_id user now user_data s =
     (if query_data = ''confirm_yes'' then save_order chat_id user now user_data s
      else if query_data = ''confirm_restart'' then (Inr ARTIKEL, [], s)
      else (Inr ConversationHandler_END, [], s))"

text \<open>\<^verbatim>\<open>cancel\<close> (lines 528-537), the fallback of both flows.\<close>

definition cancel :: "dict \<Rightarrow> (py_exception + conv_state) \<times> dict" where
  "cancel user_data = (Inr ConversationHandler_END, [])"

text \<open>\<^verbatim>\<open>stornieren_start\<close> (lines 567-598).\<close>

definition stornieren_start ::
  "int \<Rightarrow> dict \<Rightarrow> store \<Rightarrow> (py_exception + conv_state) \<times> dict \<times> store" where
  "stornieren_start chat_id user_data s =
     (case get_pending_orders_for_user chat_id s of
        (Inl e, s') \<Rightarrow> (Inl e, user_data, s')
      | (Inr found, s') \<Rightarrow>
          if found = [] then (Inr ConversationHandler_END, user_data, s')
          else (Inr STORNO_AUSWAHL,
                setitem user_data ''pending_orders'' (PList (map PDict found)), s'))"

text \<open>\<^verbatim>\<open>s.replace(old, "")\<close> for a non-empty \<open>old\<close>: every occurrence, from the left.\<close>

function remove_all :: "string \<Rightarrow> string \<Rightarrow> string" where
  "remove_all old [] = []"
| "remove_all old (c # cs) =
     (if old \<noteq> [] \<and> is_prefix old (c # cs)
      then remove_all old (drop (length old) (c # cs))
      else c # remove_all old cs)"
  by pat_completeness auto
termination
  by (relation "measure (\<lambda>(old, t). length t)") auto

text \<open>\<^verbatim>\<open>int(text)\<close>: white space around, a sign, then digits, single underscores
  between digits allowed; anything else raises ValueError.\<close>

fun int_digits :: "nat \<Rightarrow> bool \<Rightarrow> string \<Rightarrow> nat option" where
  "int_digits acc after_digit [] = (if after_digit then Some acc else None)"
| "int_digits acc after_digit (c # cs) =
     (if is_digit c then int_digits (10 * acc + digit_val c) True cs
      else if c = CHR ''_'' \<and> after_digit \<and> cs \<noteq> [] \<and> is_digit (hd cs)
      then int_digits acc False cs
      else None)"

definition py_int :: "string \<Rightarrow> py_exception + int" where
  "py_int t =
     (case strip t of
        [] \<Rightarrow> Inl Value_Error
      | c # cs \<Rightarrow>
          if c = CHR ''-'' then
            (case int_digits 0 False cs of None \<Rightarrow> Inl Value_Error | Some n \<Rightarrow> Inr (- int n))
          else if c = CHR ''+'' then
            (case int_digits 0 False cs of None \<Rightarrow> Inl Value_Error | Some n \<Rightarrow> Inr (int n))
          else
            (case int_digits 0 False (c # cs) of
               None \<Rightarrow> Inl Value_Error | Some n \<Rightarrow> Inr (int n)))"

text \<open>What a \<^verbatim>\<open>for\<close> over a value walks through; an integer is not iterable.\<close>

fun iter_items :: "py_value \<Rightarrow> py_exception + py_value list" where
  "iter_items (PList xs) = Inr xs"
| "iter_items (PStr t) = Inr (map (\<lambda>c. PStr [c]) t)"
| "iter_items (PDict d) = Inr (map (\<lambda>(k, v). PStr k) d)"
| "iter_items (PInt i) = Inl Type_Error"

text \<open>Line 615: \<^verbatim>\<open>next((o for o in pending if o["row"] == row_number), None)\<close>.
  Subscripting anything but a dictionary with \<^verbatim>\<open>"row"\<close> raises TypeError.\<close>

fun find_order :: "py_value list \<Rightarrow> int \<Rightarrow> py_exception + py_value option" where
  "find_order [] row_number = Inr None"
| "find_order (PDict d # rest) row_number =
     (case getitem d ''row'' of
        Inl e \<Rightarrow> Inl e
      | Inr v \<Rightarrow> if v = PInt row_number then Inr (Some (PDict d))
                 else find_order rest row_number)"
| "find_order (x # rest) row_number = Inl Type_Error"

text \<open>Truth value of what \<open>find_order\<close> returns: \<^verbatim>\<open>None\<close> and the empty dictionary
  are false.\<close>

fun truthy :: "py_value option \<Rightarrow> bool" where
  "truthy None = False"
| "truthy (Some (PDict d)) = (d \<noteq> [])"
| "truthy (Some (PList xs)) = (xs \<noteq> [])"
| "truthy (Some (PStr t)) = (t \<noteq> [])"
| "truthy (Some (PInt i)) = (i \<noteq> 0)"

text \<open>The keys the success message of lines 618-624 reads from the order.\<close>

definition order_texts :: "py_value option \<Rightarrow> py_exception + unit" where
  "order_texts order =
     (case order of
        Some (PDict d) \<Rightarrow>
          (case getitem d ''order_number'' of Inl e \<Rightarrow> Inl e | Inr a \<Rightarrow>
          (case getitem d ''artikel'' of Inl e \<Rightarrow> Inl e | Inr b \<Rightarrow>
          (case getitem d ''menge'' of Inl e \<Rightarrow> Inl e | Inr c \<Rightarrow> Inr ())))
      | _ \<Rightarrow> Inl Type_Error)"

text \<open>\<^verbatim>\<open>stornieren_callback\<close> (lines 601-646).\<close>

definition stornieren_callback ::
  "string \<Rightarrow> datetime \<Rightarrow> dict \<Rightarrow> store \<Rightarrow> (py_exception + conv_state) \<times> dict \<times> store" where
  "stornieren_callback query_data now user_data s =
     (if query_data = ''cancel_abort'' then (Inr ConversationHandler_END, user_data, s)
      else
        (case py_int (remove_all ''cancel_'' query_data) of
           Inl e \<Rightarrow> (Inl e, user_data, s)
         | Inr row_number \<Rightarrow>
        (case iter_items (case map_of user_data ''pending_orders'' of
                            None \<Rightarrow> PList [] | Some v \<Rightarrow> v) of
           Inl e \<Rightarrow> (Inl e, user_data, s)
         | Inr cached \<Rightarrow>
        (case find_order cached row_number of
           Inl e \<Rightarrow> (Inl e, user_data, s)
         | Inr order \<Rightarrow>
             if truthy order then
               (case cancel_order row_number now s of
                  (Inl e, s') \<Rightarrow> (Inl e, user_data, s')
                | (Inr ok, s') \<Rightarrow>
                    if ok then
                      (case order_texts order of
                         Inl e \<Rightarrow> (Inl e, user_data, s')
                       | Inr u \<Rightarrow> (Inr ConversationHandler_END, [], s'))
                    else (Inr ConversationHandler_END, [], s'))
             else (Inr ConversationHandler_END, [], s)))))"

section \<open>Notions used in the statements\<close>

text \<open>The keys \<^verbatim>\<open>save_to_sheet\<close> reads from a request, and the cells it writes
  after the order number.\<close>

definition request_keys :: "string list" where
  "request_keys = [''timestamp'', ''mitarbeiter'', ''chat_id'', ''artikel'', ''menge'',
                   ''dringlichkeit'', ''kostenstelle'']"

definition has_request_keys :: "dict \<Rightarrow> bool" where
  "has_request_keys data = list_all (\<lambda>k. map_of data k \<noteq> None) request_keys"

definition request_cells :: "dict \<Rightarrow> sheet_row" where
  "request_cells data =
     map (\<lambda>k. case map_of data k of Some v \<Rightarrow> py_str v | None \<Rightarrow> []) request_keys @ [[], []]"

text \<open>A request as \<^verbatim>\<open>save_order\<close> hands it over, and the header of the sheet.\<close>

definition toner_request :: dict where
  "toner_request =
     [(''timestamp'', PStr ''2024-05-08 10:15:00''), (''mitarbeiter'', PStr ''Max Muster''),
      (''chat_id'', PInt 42), (''artikel'', PStr ''Toner''), (''menge'', PStr ''2''),
      (''dringlichkeit'', PStr ''Normal''), (''kostenstelle'', PStr ''Lager''),
      (''foto_id'', PStr [])]"

definition header_row :: sheet_row where
  "header_row = [''BestellNr'', ''Timestamp'', ''Mitarbeiter'', ''ChatId'', ''Artikel'', ''Menge'',
                 ''Dringlichkeit'', ''Kostenstelle'', ''Bestellt?'', ''Bestellt am'']"

text \<open>No round trip to come raises.\<close>

definition all_round_trips_succeed :: "store \<Rightarrow> bool" where
  "all_round_trips_succeed s = (True \<notin> set (faults s))"

text \<open>Appends one after the other, each finished before the next begins.\<close>

fun append_all :: "dict list \<Rightarrow> store \<Rightarrow> (py_exception + bool \<times> string) list \<times> store" where
  "append_all [] s = ([], s)"
| "append_all (d # ds) s =
     (case save_to_sheet d s of (r, s') \<Rightarrow>
        (case append_all ds s' of (rs, s'') \<Rightarrow> (r # rs, s'')))"

text \<open>The number an order number stands for: the digits after the \<^verbatim>\<open>#\<close>.\<close>

definition digits_value :: "string \<Rightarrow> nat" where
  "digits_value t = foldl (\<lambda>a c. 10 * a + digit_val c) 0 t"

definition order_value :: "string \<Rightarrow> nat" where
  "order_value number = digits_value (drop 1 number)"

definition paper_request :: dict where
  "paper_request =
     [(''timestamp'', PStr ''2024-05-08 11:30:00''), (''mitarbeiter'', PStr ''Erika Beispiel''),
      (''chat_id'', PInt 77), (''artikel'', PStr ''Druckerpapier''), (''menge'', PStr ''10''),
      (''dringlichkeit'', PStr ''Dringend''), (''kostenstelle'', PStr ''HR''),
      (''foto_id'', PStr [])]"

text \<open>\<^verbatim>\<open>enumerate(xs, start=i)\<close>, and the rows below the header with their positions
  in the sheet.\<close>

fun enumerate_from :: "int \<Rightarrow> 'a list \<Rightarrow> (int \<times> 'a) list" where
  "enumerate_from i [] = []"
| "enumerate_from i (x # xs) = (i, x) # enumerate_from (i + 1) xs"

definition data_rows :: "sheet_row list \<Rightarrow> (int \<times> sheet_row) list" where
  "data_rows rows = enumerate_from 2 (drop 1 rows)"

text \<open>The first \<open>n\<close> round trips to come do not raise.\<close>

definition round_trips_succeed :: "nat \<Rightarrow> store \<Rightarrow> bool" where
  "round_trips_succeed n s = (True \<notin> set (take n (faults s)))"

text \<open>What \<^verbatim>\<open>get_pending_orders_for_user\<close> asks of a row: nine cells at least, the
  chat id of the caller in the fourth, nothing but white space in the ninth.\<close>

definition is_pending_for :: "int \<Rightarrow> sheet_row \<Rightarrow> bool" where
  "is_pending_for chat_id row =
     (9 \<le> length row \<and> row ! 3 = str_int chat_id \<and> strip (row ! 8) = [])"


definition wednesday_noon :: datetime where
  "wednesday_noon = \<lparr>year = 2024, month = 5, day = 8, hour = 12, minute = 0, second = 30,
                      microsecond = 7\<rparr>"

definition toner_sheet :: "sheet_row list" where
  "toner_sheet =
     [header_row,
      [''#001'', ''2024-05-08 10:15:00'', ''Max Muster'', ''42'', ''Toner'', ''2'', ''Normal'',
       ''Lager'', [], []]]"










text \<open>The scratch dictionary after \<^verbatim>\<open>/stornieren\<close> of chat 42 on \<open>toner_sheet\<close>.\<close>

definition selecting_user_data :: dict where
  "selecting_user_data =
     [(''pending_orders'',
       PList [PDict [(''row'', PInt 2), (''order_number'', PStr ''#001''),
                     (''timestamp'', PStr ''2024-05-08 10:15:00''), (''artikel'', PStr ''Toner''),
                     (''menge'', PStr ''2''), (''dringlichkeit'', PStr ''Normal''),
                     (''kostenstelle'', PStr ''Lager'')]])]"

text \<open>A request stamped with Monday 00:00:00 of the week of \<open>wednesday_noon\<close>.\<close>

definition monday_sheet :: "sheet_row list" where
  "monday_sheet =
     [header_row,
      [''#001'', ''2024-05-06 00:00:00'', ''Max Muster'', ''42'', ''Toner'', ''2'', ''Normal'',
       ''Lager'', [], []]]"

section \<open>Facts\<close>

subsection \<open>Evaluation\<close>

lemma str_nat_code [code]: "str_nat n = str_nat_step (n < 10) n"
  by (simp add: str_nat_step_def str_nat.simps [of n])

lemma str_nat_step_code [code]:
  "str_nat_step True n = [char_of (48 + n)]"
  "str_nat_step False n = str_nat (n div 10) @ [char_of (48 + n mod 10)]"
  by (simp_all add: str_nat_step_def)

subsection \<open>The store and the order number\<close>

lemma build_row_ok:
  "has_request_keys data \<Longrightarrow> build_row n data = Inr (n # request_cells data)"
  by (auto simp: has_request_keys_def request_keys_def request_cells_def build_row_def getitem_def)

lemma get_google_sheet_simps:
  "get_google_sheet \<lparr>sheet = rows, faults = False # fs\<rparr> = (Some Worksheet, \<lparr>sheet = rows, faults = fs\<rparr>)"
  "get_google_sheet \<lparr>sheet = rows, faults = True # fs\<rparr> = (None, \<lparr>sheet = rows, faults = fs\<rparr>)"
  "get_google_sheet \<lparr>sheet = rows, faults = []\<rparr> = (Some Worksheet, \<lparr>sheet = rows, faults = []\<rparr>)"
  by (simp_all add: get_google_sheet_def round_trip_def)

lemma get_all_values_simps:
  "get_all_values ws \<lparr>sheet = rows, faults = False # fs\<rparr> = (Inr rows, \<lparr>sheet = rows, faults = fs\<rparr>)"
  "get_all_values ws \<lparr>sheet = rows, faults = True # fs\<rparr> = (Inl Store_Error, \<lparr>sheet = rows, faults = fs\<rparr>)"
  "get_all_values ws \<lparr>sheet = rows, faults = []\<rparr> = (Inr rows, \<lparr>sheet = rows, faults = []\<rparr>)"
  by (simp_all add: get_all_values_def round_trip_def)

lemma append_row_simps:
  "append_row ws r \<lparr>sheet = rows, faults = False # fs\<rparr> = (Inr (), \<lparr>sheet = rows @ [r], faults = fs\<rparr>)"
  "append_row ws r \<lparr>sheet = rows, faults = True # fs\<rparr> = (Inl Store_Error, \<lparr>sheet = rows, faults = fs\<rparr>)"
  "append_row ws r \<lparr>sheet = rows, faults = []\<rparr> = (Inr (), \<lparr>sheet = rows @ [r], faults = []\<rparr>)"
  by (simp_all add: append_row_def round_trip_def)

lemmas store_simps = get_google_sheet_simps get_all_values_simps append_row_simps

lemma get_next_order_number_simps:
  "get_next_order_number \<lparr>sheet = rows, faults = True # fs\<rparr> = (Inr ''#001'', \<lparr>sheet = rows, faults = fs\<rparr>)"
  "get_next_order_number \<lparr>sheet = rows, faults = False # True # fs\<rparr> = (Inr ''#???'', \<lparr>sheet = rows, faults = fs\<rparr>)"
  "get_next_order_number \<lparr>sheet = rows, faults = False # False # fs\<rparr> = (Inr (CHR ''#'' # fmt_03d (length rows)), \<lparr>sheet = rows, faults = fs\<rparr>)"
  "get_next_order_number \<lparr>sheet = rows, faults = [False]\<rparr> = (Inr (CHR ''#'' # fmt_03d (length rows)), \<lparr>sheet = rows, faults = []\<rparr>)"
  "get_next_order_number \<lparr>sheet = rows, faults = []\<rparr> = (Inr (CHR ''#'' # fmt_03d (length rows)), \<lparr>sheet = rows, faults = []\<rparr>)"
  by (simp_all add: get_next_order_number_def get_next_order_number_body_def try_except_def store_simps)

lemma str_nat_digits: "c \<in> set (str_nat n) \<Longrightarrow> is_digit c"
proof (induction n arbitrary: c rule: str_nat.induct)
  case (1 n)
  show ?case
  proof (cases "n < 10")
    case True
    with "1.prems" have "c = char_of (48 + n)" by (simp add: str_nat.simps [of n])
    with True show ?thesis by (simp add: is_digit_def)
  next
    case False
    with "1.prems" have "c \<in> set (str_nat (n div 10)) \<or> c = char_of (48 + n mod 10)"
      by (auto simp: str_nat.simps [of n])
    then show ?thesis
    proof
      assume "c \<in> set (str_nat (n div 10))"
      with "1.IH" False show ?thesis by simp
    next
      assume "c = char_of (48 + n mod 10)"
      moreover have "n mod 10 < 10" by simp
      ultimately show ?thesis by (simp add: is_digit_def)
    qed
  qed
qed

lemma fmt_03d_digits: "c \<in> set (fmt_03d n) \<Longrightarrow> is_digit c"
  by (auto simp: fmt_03d_def zfill_def is_digit_def dest: str_nat_digits)

lemma placeholder_not_a_number: "''#???'' \<noteq> CHR ''#'' # fmt_03d n"
proof
  assume "''#???'' = CHR ''#'' # fmt_03d n"
  then have "CHR ''?'' \<in> set (fmt_03d n)" by (metis list.set_intros(1) list.inject)
  then have "is_digit CHR ''?''" by (rule fmt_03d_digits)
  then show False by (simp add: is_digit_def)
qed

subsection \<open>Placeholder order numbers\<close>

text \<open>
  Claim C9.  When the append itself goes through but the derivation of the order
  number fails, \<^verbatim>\<open>save_to_sheet\<close> still reports success and writes the row: with
  the number \<^verbatim>\<open>#001\<close> when the derivation's own connection gave no handle, with
  \<^verbatim>\<open>#???\<close> when its read of the rows raised.  This holds whatever rows the sheet
  already has, so the stored number need not be unique, and \<^verbatim>\<open>#???\<close> is the
  number of no row count.
\<close>

theorem save_to_sheet_placeholder_numbers:
  "has_request_keys data \<Longrightarrow>
     save_to_sheet data \<lparr>sheet = rows, faults = False # True # False # fs\<rparr>
       = (Inr (True, ''#001''), \<lparr>sheet = rows @ [''#001'' # request_cells data], faults = fs\<rparr>)
   \<and> save_to_sheet data \<lparr>sheet = rows, faults = False # False # True # False # fs\<rparr>
       = (Inr (True, ''#???''), \<lparr>sheet = rows @ [''#???'' # request_cells data], faults = fs\<rparr>)
   \<and> (\<forall>n. ''#???'' \<noteq> CHR ''#'' # fmt_03d n)"
  by (simp add: save_to_sheet_def save_to_sheet_body_def try_except_def store_simps
      get_next_order_number_simps build_row_ok placeholder_not_a_number del: list.inject)

lemma toner_request_keys: "has_request_keys toner_request"
  by (simp add: has_request_keys_def request_keys_def toner_request_def)

lemma toner_request_cells:
  "request_cells toner_request =
     [''2024-05-08 10:15:00'', ''Max Muster'', ''42'', ''Toner'', ''2'', ''Normal'', ''Lager'', [], []]"
  by code_simp

theorem save_to_sheet_placeholder_numbers_witness:
  "has_request_keys toner_request
   \<and> save_to_sheet toner_request
       \<lparr>sheet = [header_row, ''#001'' # request_cells toner_request], faults = [False, True, False]\<rparr>
       = (Inr (True, ''#001''),
          \<lparr>sheet = [header_row, ''#001'' # request_cells toner_request,
                    [''#001'', ''2024-05-08 10:15:00'', ''Max Muster'', ''42'', ''Toner'', ''2'',
                     ''Normal'', ''Lager'', [], []]],
           faults = []\<rparr>)
   \<and> save_to_sheet toner_request
       \<lparr>sheet = [header_row], faults = [False, False, True, False]\<rparr>
       = (Inr (True, ''#???''),
          \<lparr>sheet = [header_row,
                    [''#???'', ''2024-05-08 10:15:00'', ''Max Muster'', ''42'', ''Toner'', ''2'',
                     ''Normal'', ''Lager'', [], []]],
           faults = []\<rparr>)"
  using save_to_sheet_placeholder_numbers [OF toner_request_keys, of "[header_row, ''#001'' # request_cells toner_request]" "[]"]
        save_to_sheet_placeholder_numbers [OF toner_request_keys, of "[header_row]" "[]"]
        toner_request_keys
  by (simp add: toner_request_cells)

subsection \<open>Order numbers of successive appends\<close>

lemma round_trip_quiet:
  "all_round_trips_succeed s \<Longrightarrow>
     fst (round_trip s) = False \<and> sheet (snd (round_trip s)) = sheet s
     \<and> all_round_trips_succeed (snd (round_trip s))"
  by (cases "faults s") (auto simp: round_trip_def all_round_trips_succeed_def)

lemma get_google_sheet_quiet:
  assumes "all_round_trips_succeed s"
  shows "\<exists>s1. get_google_sheet s = (Some Worksheet, s1) \<and> sheet s1 = sheet s
              \<and> all_round_trips_succeed s1"
  using round_trip_quiet [OF assms]
  by (cases "round_trip s") (auto simp: get_google_sheet_def)

lemma get_all_values_quiet:
  assumes "all_round_trips_succeed s"
  shows "\<exists>s1. get_all_values ws s = (Inr (sheet s), s1) \<and> sheet s1 = sheet s
              \<and> all_round_trips_succeed s1"
  using round_trip_quiet [OF assms]
  by (cases "round_trip s") (auto simp: get_all_values_def)

lemma append_row_quiet:
  assumes "all_round_trips_succeed s"
  shows "\<exists>s1. append_row ws r s = (Inr (), s1) \<and> sheet s1 = sheet s @ [r]
              \<and> all_round_trips_succeed s1"
  using round_trip_quiet [OF assms]
  by (cases "round_trip s") (auto simp: append_row_def all_round_trips_succeed_def)

lemma get_next_order_number_quiet:
  assumes "all_round_trips_succeed s"
  shows "\<exists>s1. get_next_order_number s = (Inr (CHR ''#'' # fmt_03d (length (sheet s))), s1)
              \<and> sheet s1 = sheet s \<and> all_round_trips_succeed s1"
proof -
  obtain s1 where 1: "get_google_sheet s = (Some Worksheet, s1)" "sheet s1 = sheet s"
      "all_round_trips_succeed s1"
    using get_google_sheet_quiet [OF assms] by blast
  obtain s2 where 2: "get_all_values Worksheet s1 = (Inr (sheet s1), s2)" "sheet s2 = sheet s1"
      "all_round_trips_succeed s2"
    using get_all_values_quiet [OF 1(3)] by blast
  show ?thesis
    using 1 2
    by (simp add: get_next_order_number_def get_next_order_number_body_def try_except_def)
qed

lemma save_to_sheet_quiet:
  assumes "all_round_trips_succeed s" and "has_request_keys d"
  shows "\<exists>s1. save_to_sheet d s = (Inr (True, CHR ''#'' # fmt_03d (length (sheet s))), s1)
              \<and> sheet s1 = sheet s @ [(CHR ''#'' # fmt_03d (length (sheet s))) # request_cells d]
              \<and> all_round_trips_succeed s1"
proof -
  obtain s1 where 1: "get_google_sheet s = (Some Worksheet, s1)" "sheet s1 = sheet s"
      "all_round_trips_succeed s1"
    using get_google_sheet_quiet [OF assms(1)] by blast
  obtain s2 where 2: "get_next_order_number s1 = (Inr (CHR ''#'' # fmt_03d (length (sheet s1))), s2)"
      "sheet s2 = sheet s1" "all_round_trips_succeed s2"
    using get_next_order_number_quiet [OF 1(3)] by blast
  obtain s3 where 3: "append_row Worksheet ((CHR ''#'' # fmt_03d (length (sheet s))) # request_cells d) s2
        = (Inr (), s3)"
      "sheet s3 = sheet s2 @ [(CHR ''#'' # fmt_03d (length (sheet s))) # request_cells d]"
      "all_round_trips_succeed s3"
    using append_row_quiet [OF 2(3)] by blast
  show ?thesis
    using 1 2 3 build_row_ok [OF assms(2)]
    by (simp add: save_to_sheet_def save_to_sheet_body_def try_except_def)
qed

lemma append_all_quiet:
  "all_round_trips_succeed s \<Longrightarrow> list_all has_request_keys ds \<Longrightarrow>
     fst (append_all ds s)
       = map (\<lambda>k. Inr (True, CHR ''#'' # fmt_03d k)) [length (sheet s) ..< length (sheet s) + length ds]
     \<and> length (sheet (snd (append_all ds s))) = length (sheet s) + length ds
     \<and> all_round_trips_succeed (snd (append_all ds s))"
proof (induction ds arbitrary: s)
  case Nil
  then show ?case by simp
next
  case (Cons d ds)
  from Cons.prems have d: "has_request_keys d" and ds: "list_all has_request_keys ds" by simp_all
  obtain s1 where 1: "save_to_sheet d s = (Inr (True, CHR ''#'' # fmt_03d (length (sheet s))), s1)"
      "sheet s1 = sheet s @ [(CHR ''#'' # fmt_03d (length (sheet s))) # request_cells d]"
      "all_round_trips_succeed s1"
    using save_to_sheet_quiet [OF Cons.prems(1) d] by blast
  have len: "length (sheet s1) = Suc (length (sheet s))" using 1(2) by simp
  note IH = Cons.IH [OF 1(3) ds]
  have upt: "[length (sheet s) ..< length (sheet s) + length (d # ds)]
      = length (sheet s) # [length (sheet s1) ..< length (sheet s1) + length ds]"
    unfolding len by (subst upt_rec) simp
  obtain rs s2 where r: "append_all ds s1 = (rs, s2)" by (cases "append_all ds s1")
  have res: "append_all (d # ds) s = (Inr (True, CHR ''#'' # fmt_03d (length (sheet s))) # rs, s2)"
    using 1(1) r by simp
  from IH r have rs: "rs = map (\<lambda>k. Inr (True, CHR ''#'' # fmt_03d k))
        [length (sheet s1) ..< length (sheet s1) + length ds]"
    and l2: "length (sheet s2) = length (sheet s1) + length ds"
    and q2: "all_round_trips_succeed s2"
    by simp_all
  have "fst (append_all (d # ds) s)
      = map (\<lambda>k. Inr (True, CHR ''#'' # fmt_03d k)) [length (sheet s) ..< length (sheet s) + length (d # ds)]"
    unfolding upt res rs by simp
  moreover have "length (sheet (snd (append_all (d # ds) s))) = length (sheet s) + length (d # ds)"
    unfolding res using l2 len by simp
  moreover have "all_round_trips_succeed (snd (append_all (d # ds) s))"
    unfolding res using q2 by simp
  ultimately show ?case by blast
qed

lemma digits_value_snoc: "digits_value (t @ [c]) = 10 * digits_value t + digit_val c"
  by (simp add: digits_value_def)

lemma digit_val_char: "n < 10 \<Longrightarrow> digit_val (char_of (48 + n)) = n"
  by (simp add: digit_val_def)

lemma digits_value_str_nat: "digits_value (str_nat n) = n"
proof (induction n rule: str_nat.induct)
  case (1 n)
  show ?case
  proof (cases "n < 10")
    case True
    then show ?thesis
      by (simp add: str_nat.simps [of n] digits_value_def digit_val_char)
  next
    case False
    with "1.IH" have "digits_value (str_nat (n div 10)) = n div 10" by simp
    moreover have "digit_val (char_of (48 + n mod 10)) = n mod 10"
      by (rule digit_val_char) simp
    ultimately show ?thesis
      using False by (simp add: str_nat.simps [of n] digits_value_snoc)
  qed
qed

lemma digits_value_zeros: "foldl (\<lambda>a c. 10 * a + digit_val c) 0 (replicate k CHR ''0'') = 0"
  by (induction k) (simp_all add: digit_val_def)

lemma order_value_fmt: "order_value (CHR ''#'' # fmt_03d k) = k"
  using digits_value_str_nat [of k]
  by (simp add: order_value_def fmt_03d_def zfill_def digits_value_def digits_value_zeros)

lemma length_fmt_03d: "3 \<le> length (fmt_03d k)"
  by (simp add: fmt_03d_def zfill_def)

text \<open>
  Claim C1, amended.  Start from a sheet that holds the header row only and append
  \<open>N\<close> requests one after the other, every round trip to the store succeeding
  (those of the order number's derivation among them).  Then every append reports
  success, the order numbers are \<^verbatim>\<open>#001\<close>, \<^verbatim>\<open>#002\<close>, ... up to \<open>N\<close>, the number of
  the \<open>i\<close>-th append is the count of rows (header included) the sheet has when it
  is assigned, the number written stands for that count, and it has at least three
  digits.
\<close>

theorem append_all_order_numbers:
  assumes "length (sheet s) = 1" and "all_round_trips_succeed s"
    and "list_all has_request_keys ds"
  shows "fst (append_all ds s)
           = map (\<lambda>k. Inr (True, CHR ''#'' # fmt_03d k)) [1..<Suc (length ds)]
       \<and> (\<forall>i<length ds. fst (append_all ds s) ! i
             = Inr (True, CHR ''#'' # fmt_03d (length (sheet (snd (append_all (take i ds) s))))))
       \<and> (\<forall>k. order_value (CHR ''#'' # fmt_03d k) = k \<and> 3 \<le> length (fmt_03d k))"
proof -
  have all: "fst (append_all ds s)
      = map (\<lambda>k. Inr (True, CHR ''#'' # fmt_03d k)) [1..<Suc (length ds)]"
    using append_all_quiet [OF assms(2,3)] assms(1) by simp
  have "fst (append_all ds s) ! i
      = Inr (True, CHR ''#'' # fmt_03d (length (sheet (snd (append_all (take i ds) s)))))"
    if "i < length ds" for i
  proof -
    have "list_all has_request_keys (take i ds)"
      using assms(3) by (auto simp: list_all_iff dest: in_set_takeD)
    from append_all_quiet [OF assms(2) this]
    have "length (sheet (snd (append_all (take i ds) s))) = Suc i"
      using assms(1) that by simp
    moreover have "map (\<lambda>k. Inr (True, CHR ''#'' # fmt_03d k) :: py_exception + bool \<times> string)
        [1..<Suc (length ds)] ! i = Inr (True, CHR ''#'' # fmt_03d (Suc i))"
      using that by (simp del: upt_Suc)
    ultimately show ?thesis using all by simp
  qed
  then show ?thesis
    using all order_value_fmt length_fmt_03d by blast
qed

theorem append_all_order_numbers_witness:
  "length (sheet \<lparr>sheet = [header_row], faults = []\<rparr>) = 1
   \<and> all_round_trips_succeed \<lparr>sheet = [header_row], faults = []\<rparr>
   \<and> list_all has_request_keys [toner_request, paper_request]
   \<and> fst (append_all [toner_request, paper_request] \<lparr>sheet = [header_row], faults = []\<rparr>)
       = [Inr (True, ''#001''), Inr (True, ''#002'')]"
proof -
  have 1: "length (sheet \<lparr>sheet = [header_row], faults = []\<rparr>) = 1" by simp
  have 2: "all_round_trips_succeed \<lparr>sheet = [header_row], faults = []\<rparr>"
    by (simp add: all_round_trips_succeed_def)
  have 3: "list_all has_request_keys [toner_request, paper_request]"
    by (simp add: has_request_keys_def request_keys_def toner_request_def paper_request_def)
  have 4: "map (\<lambda>k. Inr (True, CHR ''#'' # fmt_03d k) :: py_exception + bool \<times> string) [1..<Suc (length [toner_request, paper_request])]
      = [Inr (True, ''#001''), Inr (True, ''#002'')]"
    by code_simp
  show ?thesis
    using append_all_order_numbers [OF 1 2 3] 1 2 3 4 by simp
qed

text \<open>
  The claim as stated, for every sequence of successful appends, fails: an append
  whose order number could not be read is a successful append, and its number is
  \<^verbatim>\<open>#???\<close>.
\<close>

theorem append_all_order_numbers_counterexample:
  "fst (append_all [toner_request] \<lparr>sheet = [header_row], faults = [False, False, True, False]\<rparr>)
     = [Inr (True, ''#???'')]"
  by (simp add: save_to_sheet_def save_to_sheet_body_def try_except_def store_simps
      get_next_order_number_simps build_row_ok toner_request_keys)

subsection \<open>Reading the sheet\<close>

lemma read_sheet:
  assumes "round_trips_succeed 2 s"
  shows "\<exists>s1 s2. get_google_sheet s = (Some Worksheet, s1)
           \<and> get_all_values Worksheet s1 = (Inr (sheet s), s2)"
proof (cases "faults s")
  case Nil
  then show ?thesis
    by (simp add: get_google_sheet_def get_all_values_def round_trip_def)
next
  case (Cons a fs)
  with assms have a: "\<not> a" by (simp add: round_trips_succeed_def)
  show ?thesis
  proof (cases fs)
    case Nil
    with Cons a show ?thesis
      by (simp add: get_google_sheet_def get_all_values_def round_trip_def)
  next
    case (Cons b gs)
    with \<open>faults s = a # fs\<close> assms have "\<not> b" by (simp add: round_trips_succeed_def)
    with Cons \<open>faults s = a # fs\<close> a show ?thesis
      by (simp add: get_google_sheet_def get_all_values_def round_trip_def)
  qed
qed

lemma enumerate_from_length [simp]: "length (enumerate_from i xs) = length xs"
  by (induction xs arbitrary: i) simp_all

lemma enumerate_from_nth:
  "k < length xs \<Longrightarrow> enumerate_from i xs ! k = (i + int k, xs ! k)"
proof (induction xs arbitrary: i k)
  case Nil
  then show ?case by simp
next
  case (Cons x xs)
  then show ?case by (cases k) simp_all
qed

lemma enumerate_from_snd [simp]: "map snd (enumerate_from i xs) = xs"
  by (induction xs arbitrary: i) simp_all

lemma data_rows_position:
  assumes "(i, row) \<in> set (data_rows rows)"
  shows "2 \<le> i \<and> nat i \<le> length rows \<and> row = rows ! (nat i - 1)"
proof -
  from assms obtain k where k: "k < length (drop 1 rows)"
      and eq: "enumerate_from 2 (drop 1 rows) ! k = (i, row)"
    by (auto simp: data_rows_def in_set_conv_nth)
  from enumerate_from_nth [OF k, of 2] eq have i: "i = 2 + int k" and r: "row = drop 1 rows ! k"
    by simp_all
  from k have "Suc k < length rows" by simp
  with i r show ?thesis by (simp add: nat_add_distrib)
qed

subsection \<open>Pending requests of a user\<close>

lemma pending_loop_eq:
  "pending_loop chat_id i rows acc
     = acc @ map (\<lambda>(j, row). pending_entry j row)
               (filter (\<lambda>(j, row). is_pending_for chat_id row) (enumerate_from i rows))"
  by (induction rows arbitrary: i acc) (simp_all add: is_pending_for_def Let_def)

lemma get_pending_orders_for_user_eq:
  assumes "round_trips_succeed 2 s"
  shows "fst (get_pending_orders_for_user chat_id s)
     = Inr (map (\<lambda>(i, row). pending_entry i row)
              (filter (\<lambda>(i, row). is_pending_for chat_id row) (data_rows (sheet s))))"
proof -
  obtain s1 s2 where "get_google_sheet s = (Some Worksheet, s1)"
      "get_all_values Worksheet s1 = (Inr (sheet s), s2)"
    using read_sheet [OF assms] by blast
  moreover have "length (sheet s) \<le> 1 \<Longrightarrow> data_rows (sheet s) = []"
    by (simp add: data_rows_def)
  ultimately show ?thesis
    by (simp add: get_pending_orders_for_user_def get_pending_orders_for_user_body_def
        try_except_def pending_loop_eq data_rows_def)
qed




subsection \<open>Cancelling a row\<close>

lemma round_trip_sheet [simp]: "sheet (snd (round_trip s)) = sheet s"
  by (cases "faults s") (simp_all add: round_trip_def)

lemma cell_pad_rows: "cell (rows @ replicate k []) r c = cell rows r c"
proof (cases "1 \<le> r \<and> r \<le> length rows")
  case True
  then have "r - 1 < length rows" by arith
  with True show ?thesis by (simp add: cell_def nth_append)
next
  case False
  then have "r = 0 \<or> length rows < r" by arith
  then show ?thesis
  proof
    assume "r = 0"
    then show ?thesis by (simp add: cell_def)
  next
    assume big: "length rows < r"
    then have out: "cell rows r c = []" by (simp add: cell_def)
    show ?thesis
    proof (cases "r \<le> length rows + k")
      case True
      with big have "r - 1 - length rows < k" "\<not> r - 1 < length rows" by arith+
      then have "(rows @ replicate k []) ! (r - 1) = []" by (simp add: nth_append)
      then show ?thesis using out by (auto simp: cell_def)
    next
      case False
      then show ?thesis using out by (auto simp: cell_def)
    qed
  qed
qed

lemma cell_pad_row:
  assumes "i < length rows"
  shows "cell (rows[i := rows ! i @ replicate k []]) r c = cell rows r c"
proof (cases "r = Suc i")
  case True
  show ?thesis
  proof (cases "1 \<le> c \<and> c \<le> length (rows ! i)")
    case True
    then have "c - 1 < length (rows ! i)" by arith
    with True \<open>r = Suc i\<close> assms show ?thesis by (simp add: cell_def nth_append)
  next
    case False
    then have "c = 0 \<or> length (rows ! i) < c" by arith
    then show ?thesis
    proof
      assume "c = 0"
      then show ?thesis by (simp add: cell_def)
    next
      assume big: "length (rows ! i) < c"
      then have out: "cell rows r c = []" using \<open>r = Suc i\<close> by (simp add: cell_def)
      show ?thesis
      proof (cases "c \<le> length (rows ! i) + k")
        case True
        with big have "c - 1 - length (rows ! i) < k" "\<not> c - 1 < length (rows ! i)" by arith+
        then have "(rows ! i @ replicate k []) ! (c - 1) = []" by (simp add: nth_append)
        then show ?thesis using out \<open>r = Suc i\<close> assms by (auto simp: cell_def)
      next
        case False
        then show ?thesis using out \<open>r = Suc i\<close> assms by (auto simp: cell_def)
      qed
    qed
  qed
next
  case False
  then have "r - 1 \<noteq> i \<or> r = 0" by auto
  then show ?thesis by (auto simp: cell_def)
qed

lemma cell_update:
  assumes "i < length rows" and "j < length (rows ! i)"
  shows "cell (rows[i := (rows ! i)[j := v]]) r c
           = (if r = Suc i \<and> c = Suc j then v else cell rows r c)"
proof (cases "r = Suc i")
  case True
  with assms show ?thesis by (auto simp: cell_def nth_list_update)
next
  case False
  then have "r - 1 \<noteq> i \<or> r = 0" by auto
  then show ?thesis using False by (auto simp: cell_def)
qed

lemma cell_set_cell:
  "cell (set_cell i j v rows) r c = (if r = Suc i \<and> c = Suc j then v else cell rows r c)"
proof -
  define rows1 where "rows1 = rows @ replicate (Suc i - length rows) []"
  define rows2 where "rows2 = rows1[i := rows1 ! i @ replicate (Suc j - length (rows1 ! i)) []]"
  have i: "i < length rows1" by (simp add: rows1_def)
  have i2: "i < length rows2" using i by (simp add: rows2_def)
  have j: "j < length (rows2 ! i)" using i by (simp add: rows2_def)
  have row: "rows2 ! i = rows1 ! i @ replicate (Suc j - length (rows1 ! i)) []"
    using i by (simp add: rows2_def)
  have "set_cell i j v rows = rows2[i := (rows2 ! i)[j := v]]"
    using i by (simp add: set_cell_def Let_def rows1_def [symmetric] rows2_def)
  then have "cell (set_cell i j v rows) r c
      = (if r = Suc i \<and> c = Suc j then v else cell rows2 r c)"
    using cell_update [OF i2 j] by simp
  also have "cell rows2 r c = cell rows1 r c"
    unfolding rows2_def by (rule cell_pad_row [OF i])
  also have "cell rows1 r c = cell rows r c"
    unfolding rows1_def by (rule cell_pad_rows)
  finally show ?thesis .
qed

lemma cancel_order_sheet:
  assumes "cancel_order row_number now s = (Inr True, s')"
  shows "1 \<le> row_number
       \<and> sheet s' = set_cell (nat (row_number - 1)) 9 (strftime_minutes now)
                      (set_cell (nat (row_number - 1)) 8 ''STORNIERT'' (sheet s))"
proof -
  obtain f1 s1 where 1: "round_trip s = (f1, s1)" by (cases "round_trip s")
  obtain f2 s2 where 2: "round_trip s1 = (f2, s2)" by (cases "round_trip s1")
  obtain f3 s3 where 3: "round_trip s2 = (f3, s3)" by (cases "round_trip s2")
  have sh: "sheet s1 = sheet s" "sheet s2 = sheet s1" "sheet s3 = sheet s2"
    using round_trip_sheet [of s] round_trip_sheet [of s1] round_trip_sheet [of s2] 1 2 3
    by simp_all
  show ?thesis
    using assms 1 2 3 sh
    by (auto simp: cancel_order_def cancel_order_body_def try_except_def get_google_sheet_def
        update_cell_def round_trip_def split: if_splits list.splits)
qed

lemma strip_storniert: "strip ''STORNIERT'' = ''STORNIERT''"
  by code_simp

text \<open>
  Claim C3.  A call of \<^verbatim>\<open>cancel_order\<close> that returns \<^verbatim>\<open>True\<close> was given a row position
  of 1 or more; afterwards the ninth cell of that row (the status) reads
  \<^verbatim>\<open>STORNIERT\<close>, its tenth cell (the time of fulfilment) holds the current time to
  the minute, and every other cell of the sheet, in that row and in every other
  row, reads as it did before.
\<close>

theorem cancel_order_frame:
  assumes "cancel_order row_number now s = (Inr True, s')"
  shows "1 \<le> row_number
       \<and> cell (sheet s') (nat row_number) 9 = ''STORNIERT''
       \<and> cell (sheet s') (nat row_number) 10 = strftime_minutes now
       \<and> (\<forall>r c. (r, c) \<noteq> (nat row_number, 9) \<and> (r, c) \<noteq> (nat row_number, 10)
                 \<longrightarrow> cell (sheet s') r c = cell (sheet s) r c)"
proof -
  from cancel_order_sheet [OF assms]
  have r: "1 \<le> row_number"
    and sh: "sheet s' = set_cell (nat (row_number - 1)) 9 (strftime_minutes now)
                      (set_cell (nat (row_number - 1)) 8 ''STORNIERT'' (sheet s))"
    by simp_all
  from r have n: "Suc (nat (row_number - 1)) = nat row_number" by simp
  show ?thesis
    using r by (auto simp: sh cell_set_cell n)
qed

theorem cancel_order_frame_witness:
  "cancel_order 2 wednesday_noon \<lparr>sheet = toner_sheet, faults = []\<rparr>
     = (Inr True,
        \<lparr>sheet = [header_row,
                  [''#001'', ''2024-05-08 10:15:00'', ''Max Muster'', ''42'', ''Toner'', ''2'',
                   ''Normal'', ''Lager'', ''STORNIERT'', ''2024-05-08 12:00'']],
         faults = []\<rparr>)
   \<and> cell [header_row,
            [''#001'', ''2024-05-08 10:15:00'', ''Max Muster'', ''42'', ''Toner'', ''2'',
             ''Normal'', ''Lager'', ''STORNIERT'', ''2024-05-08 12:00'']] 2 9 = ''STORNIERT''
   \<and> cell [header_row,
            [''#001'', ''2024-05-08 10:15:00'', ''Max Muster'', ''42'', ''Toner'', ''2'',
             ''Normal'', ''Lager'', ''STORNIERT'', ''2024-05-08 12:00'']] 2 5
       = cell toner_sheet 2 5"
proof -
  have 1: "cancel_order 2 wednesday_noon \<lparr>sheet = toner_sheet, faults = []\<rparr>
     = (Inr True,
        \<lparr>sheet = [header_row,
                  [''#001'', ''2024-05-08 10:15:00'', ''Max Muster'', ''42'', ''Toner'', ''2'',
                   ''Normal'', ''Lager'', ''STORNIERT'', ''2024-05-08 12:00'']],
         faults = []\<rparr>)"
    by code_simp
  show ?thesis
    using cancel_order_frame [OF 1] 1 by simp
qed

subsection \<open>A cancelled row is no longer pending\<close>

lemma get_pending_orders_for_user_cases:
  "fst (get_pending_orders_for_user chat_id s) = Inr []
   \<or> fst (get_pending_orders_for_user chat_id s)
       = Inr (map (\<lambda>(i, row). pending_entry i row)
                (filter (\<lambda>(i, row). is_pending_for chat_id row) (data_rows (sheet s))))"
proof -
  obtain f1 s1 where 1: "round_trip s = (f1, s1)" by (cases "round_trip s")
  obtain f2 s2 where 2: "round_trip s1 = (f2, s2)" by (cases "round_trip s1")
  have sh: "sheet s1 = sheet s" "sheet s2 = sheet s1"
    using round_trip_sheet [of s] round_trip_sheet [of s1] 1 2 by simp_all
  have "length (sheet s) \<le> 1 \<Longrightarrow> data_rows (sheet s) = []"
    by (simp add: data_rows_def)
  then show ?thesis
    using 1 2 sh
    by (simp add: get_pending_orders_for_user_def get_pending_orders_for_user_body_def
        try_except_def get_google_sheet_def get_all_values_def pending_loop_eq data_rows_def)
qed

lemma pending_row_status:
  assumes "(i, row) \<in> set (data_rows rows)" and "is_pending_for chat_id row"
  shows "strip (cell rows (nat i) 9) = []"
proof -
  from data_rows_position [OF assms(1)]
  have "2 \<le> i" "nat i \<le> length rows" "row = rows ! (nat i - 1)" by simp_all
  moreover from assms(2) have "9 \<le> length row" "strip (row ! 8) = []"
    by (simp_all add: is_pending_for_def)
  ultimately show ?thesis by (auto simp: cell_def)
qed

text \<open>
  Claim C4.  After \<^verbatim>\<open>cancel_order\<close> has returned \<^verbatim>\<open>True\<close> for a row position, take any
  later state of the store in which the status cell of that row still reads what
  the cancellation wrote (other cells and other rows may have changed, and round
  trips may fail).  Then \<^verbatim>\<open>get_pending_orders_for_user\<close> returns a list, for every
  chat id, and no entry of the list carries that row position.
\<close>

theorem cancelled_row_never_pending:
  assumes "cancel_order row_number now s = (Inr True, s1)"
    and "cell (sheet s2) (nat row_number) 9 = cell (sheet s1) (nat row_number) 9"
  shows "\<exists>found. fst (get_pending_orders_for_user chat_id s2) = Inr found
           \<and> (\<forall>e \<in> set found. map_of e ''row'' \<noteq> Some (PInt row_number))"
proof -
  from cancel_order_sheet [OF assms(1)]
  have r: "1 \<le> row_number"
    and sh: "sheet s1 = set_cell (nat (row_number - 1)) 9 (strftime_minutes now)
                      (set_cell (nat (row_number - 1)) 8 ''STORNIERT'' (sheet s))"
    by simp_all
  from r have n: "Suc (nat (row_number - 1)) = nat row_number" by simp
  have st: "cell (sheet s2) (nat row_number) 9 = ''STORNIERT''"
    using assms(2) by (simp add: sh cell_set_cell n)
  let ?all = "map (\<lambda>(i, row). pending_entry i row)
                (filter (\<lambda>(i, row). is_pending_for chat_id row) (data_rows (sheet s2)))"
  have none: "map_of e ''row'' \<noteq> Some (PInt row_number)" if "e \<in> set ?all" for e
  proof -
    from that obtain i row where ir: "(i, row) \<in> set (data_rows (sheet s2))"
        "is_pending_for chat_id row" and e: "e = pending_entry i row"
      by auto
    have "i \<noteq> row_number"
    proof
      assume "i = row_number"
      with pending_row_status [OF ir] st have "strip ''STORNIERT'' = []" by simp
      then show False by (simp add: strip_storniert)
    qed
    then show ?thesis by (simp add: e pending_entry_def)
  qed
  from get_pending_orders_for_user_cases [of chat_id s2] show ?thesis
  proof
    assume "fst (get_pending_orders_for_user chat_id s2) = Inr []"
    then show ?thesis by simp
  next
    assume "fst (get_pending_orders_for_user chat_id s2) = Inr ?all"
    with none show ?thesis by blast
  qed
qed

theorem cancelled_row_never_pending_witness:
  "cancel_order 2 wednesday_noon \<lparr>sheet = toner_sheet, faults = [False, False, False]\<rparr>
     = (Inr True,
        \<lparr>sheet = [header_row,
                  [''#001'', ''2024-05-08 10:15:00'', ''Max Muster'', ''42'', ''Toner'', ''2'',
                   ''Normal'', ''Lager'', ''STORNIERT'', ''2024-05-08 12:00'']],
         faults = []\<rparr>)
   \<and> fst (get_pending_orders_for_user 42
       \<lparr>sheet = [header_row,
                 [''#001'', ''2024-05-08 10:15:00'', ''Max Muster'', ''42'', ''Toner'', ''2'',
                  ''Normal'', ''Lager'', ''STORNIERT'', ''2024-05-08 12:00'']],
        faults = []\<rparr>) = Inr []
   \<and> fst (get_pending_orders_for_user 42 \<lparr>sheet = toner_sheet, faults = []\<rparr>)
       = Inr [pending_entry 2 (toner_sheet ! 1)]"
proof -
  have 1: "cancel_order 2 wednesday_noon \<lparr>sheet = toner_sheet, faults = [False, False, False]\<rparr>
     = (Inr True,
        \<lparr>sheet = [header_row,
                  [''#001'', ''2024-05-08 10:15:00'', ''Max Muster'', ''42'', ''Toner'', ''2'',
                   ''Normal'', ''Lager'', ''STORNIERT'', ''2024-05-08 12:00'']],
         faults = []\<rparr>)"
    by code_simp
  have 2: "fst (get_pending_orders_for_user 42 \<lparr>sheet = toner_sheet, faults = []\<rparr>)
       = Inr [pending_entry 2 (toner_sheet ! 1)]"
    by code_simp
  have 3: "fst (get_pending_orders_for_user 42
       \<lparr>sheet = [header_row,
                 [''#001'', ''2024-05-08 10:15:00'', ''Max Muster'', ''42'', ''Toner'', ''2'',
                  ''Normal'', ''Lager'', ''STORNIERT'', ''2024-05-08 12:00'']],
        faults = []\<rparr>) = Inr []"
    by code_simp
  show ?thesis
    using cancelled_row_never_pending [OF 1 refl, of 42] 1 2 3 by simp
qed

subsection \<open>Searching\<close>









subsection \<open>The calendar\<close>

lemma toordinal_examples:
  "map (\<lambda>(y, m, d). (toordinal \<lparr>year = y, month = m, day = d, hour = 0, minute = 0, second = 0,
                                  microsecond = 0\<rparr>,
                       weekday \<lparr>year = y, month = m, day = d, hour = 0, minute = 0, second = 0,
                                microsecond = 0\<rparr>))
     [(1, 1, 1), (2024, 5, 8), (2024, 5, 6), (2024, 2, 29), (2024, 3, 1), (2023, 12, 31),
      (2000, 1, 1), (1900, 3, 1), (2024, 12, 31)]
   = [(1, 0), (739014, 2), (739012, 0), (738945, 3), (738946, 4), (738885, 6), (730120, 5),
      (693655, 3), (739251, 1)]"
  by code_simp




subsection \<open>The weekly summary\<close>







lemma strptime_examples:
  "map strptime
     [''2024-5-20 09:00:00'',
      ''2024-05- 7   9:1:5'',
      ''2024-02-30 09:00:00'',
      ''2024-05-20 09:00:60'',
      ''2024-05-20 09:00:075'',
      ''0000-05-20 09:00:00'',
      ''2024-05-20T09:00:00'',
      ''2024-13-20 09:00:00'',
      ''2023-02-29 09:00:00'',
      ''2024-02-29 24:00:00'',
      ''08.05.2024 10:15:00'',
      [],
      ''2024-05-20 09:00:6'',
      ''2024-05-20 09:00:61'',
      ''2024-05-20 09:00:62'',
      ''2024-05-20 9:00:00'',
      '' 2024-05-20 09:00:00'',
      ''2024-05-20 09:00:00 '',
      ''2024-05-20  09:00:00'',
      ''2024-05-2009:00:00'',
      ''2024-05-020 09:00:00'',
      ''2024-005-20 09:00:00'',
      ''2024-05-20 009:00:00'',
      ''2024-05-20 09:000:00'',
      ''2024-0-20 09:00:00'',
      ''2024-05-0 09:00:00'',
      ''2024-05-00 09:00:00'',
      ''2024-05-32 09:00:00'',
      ''2024-05-31 23:59:59'',
      ''2024-05-20 24:00:00'',
      ''2024-05-20 09:60:00'',
      ''20240-05-20 09:00:00'',
      ''2024-05-20 09:00:00.5'',
      ''2024-05-20 -9:00:00'',
      ''2024-05-3 1:00:00'',
      ''2024-05-3 1 1:00:00'',
      ''2024-05-  5 1:00:00'',
      ''1-05-05 1:00:00'',
      ''0001-01-01 0:0:0'',
      ''2024-02-29 00:00:00'',
      ''1900-02-29 00:00:00'',
      ''2000-02-29 00:00:00'',
      ''2024-04-31 00:00:00'',
      ''2024-12-31 23:59:59'',
      ''2024-1-1 1:1:1'',
      ''2024-10-10 10:10:10'',
      ''2024-05-06 00:00:00'',
      ''2024-05-20'' @ [CHR 0x09] @ ''09:00:00'',
      ''2024-05-20'' @ [CHR 0x0A] @ ''09:00:00'',
      ''2024-05-20'' @ [CHR 0x0B] @ ''09:00:00'',
      ''2024-05-20'' @ [CHR 0x0C] @ ''09:00:00'',
      ''2024-05-20'' @ [CHR 0x0D] @ ''09:00:00'',
      ''2024-05-20'' @ [CHR 0x1C] @ ''09:00:00'',
      ''2024-05-20'' @ [CHR 0x1D] @ ''09:00:00'',
      ''2024-05-20'' @ [CHR 0x1E] @ ''09:00:00'',
      ''2024-05-20'' @ [CHR 0x1F] @ ''09:00:00'']
   = [Inr \<lparr>year = 2024, month = 5, day = 20, hour = 9, minute = 0, second = 0, microsecond = 0\<rparr>,
      Inr \<lparr>year = 2024, month = 5, day = 7, hour = 9, minute = 1, second = 5, microsecond = 0\<rparr>,
      Inl Value_Error,
      Inl Value_Error,
      Inl Value_Error,
      Inl Value_Error,
      Inl Value_Error,
      Inl Value_Error,
      Inl Value_Error,
      Inl Value_Error,
      Inl Value_Error,
      Inl Value_Error,
      Inr \<lparr>year = 2024, month = 5, day = 20, hour = 9, minute = 0, second = 6, microsecond = 0\<rparr>,
      Inl Value_Error,
      Inl Value_Error,
      Inr \<lparr>year = 2024, month = 5, day = 20, hour = 9, minute = 0, second = 0, microsecond = 0\<rparr>,
      Inl Value_Error,
      Inl Value_Error,
      Inr \<lparr>year = 2024, month = 5, day = 20, hour = 9, minute = 0, second = 0, microsecond = 0\<rparr>,
      Inl Value_Error,
      Inl Value_Error,
      Inl Value_Error,
      Inl Value_Error,
      Inl Value_Error,
      Inl Value_Error,
      Inl Value_Error,
      Inl Value_Error,
      Inl Value_Error,
      Inr \<lparr>year = 2024, month = 5, day = 31, hour = 23, minute = 59, second = 59, microsecond = 0\<rparr>,
      Inl Value_Error,
      Inl Value_Error,
      Inl Value_Error,
      Inl Value_Error,
      Inl Value_Error,
      Inr \<lparr>year = 2024, month = 5, day = 3, hour = 1, minute = 0, second = 0, microsecond = 0\<rparr>,
      Inl Value_Error,
      Inl Value_Error,
      Inl Value_Error,
      Inr \<lparr>year = 1, month = 1, day = 1, hour = 0, minute = 0, second = 0, microsecond = 0\<rparr>,
      Inr \<lparr>year = 2024, month = 2, day = 29, hour = 0, minute = 0, second = 0, microsecond = 0\<rparr>,
      Inl Value_Error,
      Inr \<lparr>year = 2000, month = 2, day = 29, hour = 0, minute = 0, second = 0, microsecond = 0\<rparr>,
      Inl Value_Error,
      Inr \<lparr>year = 2024, month = 12, day = 31, hour = 23, minute = 59, second = 59, microsecond = 0\<rparr>,
      Inr \<lparr>year = 2024, month = 1, day = 1, hour = 1, minute = 1, second = 1, microsecond = 0\<rparr>,
      Inr \<lparr>year = 2024, month = 10, day = 10, hour = 10, minute = 10, second = 10, microsecond = 0\<rparr>,
      Inr \<lparr>year = 2024, month = 5, day = 6, hour = 0, minute = 0, second = 0, microsecond = 0\<rparr>,
      Inr \<lparr>year = 2024, month = 5, day = 20, hour = 9, minute = 0, second = 0, microsecond = 0\<rparr>,
      Inr \<lparr>year = 2024, month = 5, day = 20, hour = 9, minute = 0, second = 0, microsecond = 0\<rparr>,
      Inr \<lparr>year = 2024, month = 5, day = 20, hour = 9, minute = 0, second = 0, microsecond = 0\<rparr>,
      Inr \<lparr>year = 2024, month = 5, day = 20, hour = 9, minute = 0, second = 0, microsecond = 0\<rparr>,
      Inr \<lparr>year = 2024, month = 5, day = 20, hour = 9, minute = 0, second = 0, microsecond = 0\<rparr>,
      Inr \<lparr>year = 2024, month = 5, day = 20, hour = 9, minute = 0, second = 0, microsecond = 0\<rparr>,
      Inr \<lparr>year = 2024, month = 5, day = 20, hour = 9, minute = 0, second = 0, microsecond = 0\<rparr>,
      Inr \<lparr>year = 2024, month = 5, day = 20, hour = 9, minute = 0, second = 0, microsecond = 0\<rparr>,
      Inr \<lparr>year = 2024, month = 5, day = 20, hour = 9, minute = 0, second = 0, microsecond = 0\<rparr>]"
  by code_simp

subsection \<open>Reading, whatever the store does\<close>

lemma try_except_returns: "\<exists>v. fst (try_except body fallback s) = Inr v"
  by (cases "body s") (auto simp: try_except_def split: sum.splits)

lemma read_fails:
  assumes "True \<in> set (take 2 fs)"
  shows "(\<exists>s1. get_google_sheet \<lparr>sheet = rows, faults = fs\<rparr> = (None, s1))
       \<or> (\<exists>s1 s2. get_google_sheet \<lparr>sheet = rows, faults = fs\<rparr> = (Some Worksheet, s1)
              \<and> get_all_values Worksheet s1 = (Inl Store_Error, s2))"
proof (cases fs)
  case Nil
  with assms show ?thesis by simp
next
  case (Cons a gs)
  show ?thesis
  proof (cases a)
    case True
    with Cons show ?thesis by (simp add: get_google_sheet_simps)
  next
    case False
    with assms Cons obtain hs where "gs = True # hs" by (cases gs) auto
    with Cons False show ?thesis
      by (simp add: get_google_sheet_simps get_all_values_simps)
  qed
qed

lemma get_pending_orders_for_user_any:
  "fst (get_pending_orders_for_user chat_id \<lparr>sheet = rows, faults = fs\<rparr>)
     = Inr (if True \<in> set (take 2 fs) then []
            else map (\<lambda>(i, row). pending_entry i row)
                   (filter (\<lambda>(i, row). is_pending_for chat_id row) (data_rows rows)))"
proof (cases "True \<in> set (take 2 fs)")
  case True
  from read_fails [OF True, of rows] show ?thesis
    using True
    by (auto simp: get_pending_orders_for_user_def get_pending_orders_for_user_body_def
        try_except_def)
next
  case False
  then have "round_trips_succeed 2 \<lparr>sheet = rows, faults = fs\<rparr>"
    by (simp add: round_trips_succeed_def)
  from get_pending_orders_for_user_eq [OF this, of chat_id] False show ?thesis by simp
qed

lemma get_weekly_summary_any:
  "fst (get_weekly_summary now \<lparr>sheet = rows, faults = fs\<rparr>)
     = Inr (if True \<in> set (take 2 fs) then []
            else if length rows \<le> 1
            then [(''total'', PInt 0), (''pending'', PInt 0), (''ordered'', PInt 0),
                  (''cancelled'', PInt 0)]
            else case week_start_of now of
                   Inl e \<Rightarrow> []
                 | Inr week_start \<Rightarrow>
                     tally_dict (foldl (weekly_step week_start) zero_tally (drop 1 rows)))"
proof (cases "True \<in> set (take 2 fs)")
  case True
  from read_fails [OF True, of rows] show ?thesis
    using True
    by (auto simp: get_weekly_summary_def get_weekly_summary_body_def try_except_def)
next
  case False
  then have "round_trips_succeed 2 \<lparr>sheet = rows, faults = fs\<rparr>"
    by (simp add: round_trips_succeed_def)
  from read_sheet [OF this] obtain s1 s2 where
    "get_google_sheet \<lparr>sheet = rows, faults = fs\<rparr> = (Some Worksheet, s1)"
    "get_all_values Worksheet s1 = (Inr rows, s2)"
    by auto
  with False show ?thesis
    by (auto simp: get_weekly_summary_def get_weekly_summary_body_def try_except_def
        split: sum.splits)
qed

subsection \<open>A status of white space\<close>







lemma drop_1_middle:
  "drop 1 (xs @ y # ys) = (if xs = [] then ys else tl xs @ y # ys)"
  by (cases xs) simp_all




subsection \<open>Failures of the store\<close>

lemma update_cell_simps:
  "1 \<le> r \<Longrightarrow> update_cell ws r 9 v \<lparr>sheet = rows, faults = True # fs\<rparr>
     = (Inl Store_Error, \<lparr>sheet = rows, faults = fs\<rparr>)"
  "1 \<le> r \<Longrightarrow> update_cell ws r 10 v \<lparr>sheet = rows, faults = True # fs\<rparr>
     = (Inl Store_Error, \<lparr>sheet = rows, faults = fs\<rparr>)"
  "1 \<le> r \<Longrightarrow> update_cell ws r 9 v \<lparr>sheet = rows, faults = False # fs\<rparr>
     = (Inr (), \<lparr>sheet = set_cell (nat (r - 1)) 8 v rows, faults = fs\<rparr>)"
  "r < 1 \<Longrightarrow> update_cell ws r c v s = (Inl Incorrect_Cell_Label, s)"
  by (simp_all add: update_cell_def round_trip_def)

lemma cancel_order_fails:
  "fst (cancel_order row_number now \<lparr>sheet = rows, faults = True # fs\<rparr>) = Inr False"
  "fst (cancel_order row_number now \<lparr>sheet = rows, faults = False # True # fs\<rparr>) = Inr False"
  "fst (cancel_order row_number now \<lparr>sheet = rows, faults = False # False # True # fs\<rparr>)
     = Inr False"
proof -
  show "fst (cancel_order row_number now \<lparr>sheet = rows, faults = True # fs\<rparr>) = Inr False"
    by (simp add: cancel_order_def cancel_order_body_def try_except_def get_google_sheet_simps)
  show "fst (cancel_order row_number now \<lparr>sheet = rows, faults = False # True # fs\<rparr>) = Inr False"
    by (cases "1 \<le> row_number")
      (simp_all add: cancel_order_def cancel_order_body_def try_except_def get_google_sheet_simps
        update_cell_simps)
  show "fst (cancel_order row_number now \<lparr>sheet = rows, faults = False # False # True # fs\<rparr>)
     = Inr False"
    by (cases "1 \<le> row_number")
      (simp_all add: cancel_order_def cancel_order_body_def try_except_def get_google_sheet_simps
        update_cell_simps)
qed

lemma save_to_sheet_fails:
  "fst (save_to_sheet data \<lparr>sheet = rows, faults = True # fs\<rparr>) = Inr (False, [])"
  "fst (save_to_sheet data \<lparr>sheet = rows, faults = False # True # True # fs\<rparr>) = Inr (False, [])"
  "fst (save_to_sheet data \<lparr>sheet = rows, faults = False # False # b # True # fs\<rparr>)
     = Inr (False, [])"
proof -
  show "fst (save_to_sheet data \<lparr>sheet = rows, faults = True # fs\<rparr>) = Inr (False, [])"
    by (simp add: save_to_sheet_def save_to_sheet_body_def try_except_def get_google_sheet_simps)
  show "fst (save_to_sheet data \<lparr>sheet = rows, faults = False # True # True # fs\<rparr>)
      = Inr (False, [])"
    by (cases "build_row ''#001'' data")
      (simp_all add: save_to_sheet_def save_to_sheet_body_def try_except_def store_simps
        get_next_order_number_simps)
  show "fst (save_to_sheet data \<lparr>sheet = rows, faults = False # False # b # True # fs\<rparr>)
      = Inr (False, [])"
  proof (cases b)
    case True
    then show ?thesis
      by (cases "build_row ''#???'' data")
        (simp_all add: save_to_sheet_def save_to_sheet_body_def try_except_def store_simps
          get_next_order_number_simps)
  next
    case False
    then show ?thesis
      by (cases "build_row (CHR ''#'' # fmt_03d (length rows)) data")
        (simp_all add: save_to_sheet_def save_to_sheet_body_def try_except_def store_simps
          get_next_order_number_simps)
  qed
qed

lemma search_orders_fails:
  "fst (search_orders search_term \<lparr>sheet = rows, faults = True # fs\<rparr>) = Inr []"
  "fst (search_orders search_term \<lparr>sheet = rows, faults = False # True # fs\<rparr>) = Inr []"
  by (simp_all add: search_orders_def search_orders_body_def try_except_def store_simps)

text \<open>
  Claim C8, amended.  No ledger operation lets an exception out: whatever the store
  does, each of the five returns a value.  When the connection of the operation
  fails, and when the read or write the operation itself makes fails, the value is
  the failure value: \<^verbatim>\<open>(False, "")\<close> for the append (its write is \<^verbatim>\<open>append_row\<close>, whether
  the order number before it was derived or not), the empty list for the pending
  list and for the search, \<^verbatim>\<open>False\<close> for the cancellation (either of its two writes),
  the empty dictionary for the weekly summary.  A failure inside the derivation of
  the order number is not among these: it does not fail the append.
\<close>

theorem ledger_failures_are_values:
  "(\<exists>v. fst (save_to_sheet data s) = Inr v)
   \<and> (\<exists>v. fst (get_pending_orders_for_user chat_id s) = Inr v)
   \<and> (\<exists>v. fst (cancel_order row_number now s) = Inr v)
   \<and> (\<exists>v. fst (search_orders search_term s) = Inr v)
   \<and> (\<exists>v. fst (get_weekly_summary now s) = Inr v)
   \<and> fst (save_to_sheet data \<lparr>sheet = rows, faults = True # fs\<rparr>) = Inr (False, [])
   \<and> fst (get_pending_orders_for_user chat_id \<lparr>sheet = rows, faults = True # fs\<rparr>) = Inr []
   \<and> fst (cancel_order row_number now \<lparr>sheet = rows, faults = True # fs\<rparr>) = Inr False
   \<and> fst (search_orders search_term \<lparr>sheet = rows, faults = True # fs\<rparr>) = Inr []
   \<and> fst (get_weekly_summary now \<lparr>sheet = rows, faults = True # fs\<rparr>) = Inr []
   \<and> fst (save_to_sheet data \<lparr>sheet = rows, faults = False # True # True # fs\<rparr>)
       = Inr (False, [])
   \<and> fst (save_to_sheet data \<lparr>sheet = rows, faults = False # False # b # True # fs\<rparr>)
       = Inr (False, [])
   \<and> fst (get_pending_orders_for_user chat_id \<lparr>sheet = rows, faults = False # True # fs\<rparr>)
       = Inr []
   \<and> fst (cancel_order row_number now \<lparr>sheet = rows, faults = False # True # fs\<rparr>)
       = Inr False
   \<and> fst (cancel_order row_number now \<lparr>sheet = rows, faults = False # False # True # fs\<rparr>)
       = Inr False
   \<and> fst (search_orders search_term \<lparr>sheet = rows, faults = False # True # fs\<rparr>) = Inr []
   \<and> fst (get_weekly_summary now \<lparr>sheet = rows, faults = False # True # fs\<rparr>) = Inr []"
proof -
  have "\<exists>v. fst (save_to_sheet data s) = Inr v"
    unfolding save_to_sheet_def by (rule try_except_returns)
  moreover have "\<exists>v. fst (get_pending_orders_for_user chat_id s) = Inr v"
    unfolding get_pending_orders_for_user_def by (rule try_except_returns)
  moreover have "\<exists>v. fst (cancel_order row_number now s) = Inr v"
    unfolding cancel_order_def by (rule try_except_returns)
  moreover have "\<exists>v. fst (search_orders search_term s) = Inr v"
    unfolding search_orders_def by (rule try_except_returns)
  moreover have "\<exists>v. fst (get_weekly_summary now s) = Inr v"
    unfolding get_weekly_summary_def by (rule try_except_returns)
  ultimately show ?thesis
    by (simp add: save_to_sheet_fails cancel_order_fails search_orders_fails
        get_pending_orders_for_user_any get_weekly_summary_any)
qed

text \<open>
  The claim as stated, for every read that fails, fails on the read of the order
  number: the append returns \<^verbatim>\<open>(True, "#???")\<close>, which is none of the failure values.
\<close>

theorem ledger_failures_counterexample:
  "fst (save_to_sheet paper_request \<lparr>sheet = toner_sheet, faults = [False, False, True]\<rparr>)
     = Inr (True, ''#???'')"
  by code_simp

subsection \<open>The scratch dictionary at the end of a flow\<close>

lemma save_order_clears:
  "save_order chat_id user now user_data s = (Inr st, user_data', s') \<Longrightarrow> user_data' = []"
  by (auto simp: save_order_def Let_def split: sum.splits prod.splits)

lemma confirmation_callback_clears:
  "confirmation_callback query_data chat_id user now user_data s = (Inr st, user_data', s')
     \<Longrightarrow> user_data' = []"
  by (auto simp: confirmation_callback_def dest: save_order_clears split: if_splits)

lemma cancel_clears: "snd (cancel user_data) = []"
  by (simp add: cancel_def)

lemma stornieren_callback_selection_clears:
  "query_data \<noteq> ''cancel_abort'' \<Longrightarrow>
     stornieren_callback query_data now user_data s = (Inr st, user_data', s')
     \<Longrightarrow> user_data' = []"
  by (auto simp: stornieren_callback_def split: sum.splits prod.splits if_splits)

text \<open>
  Claim C7 fails on the abort of the cancellation flow.  \<^verbatim>\<open>/stornieren\<close> of chat 42
  on a sheet with one pending request of that chat enters \<^verbatim>\<open>STORNO_AUSWAHL\<close> with the
  pending requests cached in the scratch dictionary; the abort button
  (\<^verbatim>\<open>cancel_abort\<close>) then ends the conversation and leaves the dictionary as it
  is (the return of line 608 comes before the \<^verbatim>\<open>clear()\<close> of line 645), for every
  scratch dictionary and every store.
\<close>

theorem stornieren_callback_abort_keeps_user_data:
  "stornieren_start 42 [] \<lparr>sheet = toner_sheet, faults = []\<rparr>
     = (Inr STORNO_AUSWAHL, selecting_user_data, \<lparr>sheet = toner_sheet, faults = []\<rparr>)
   \<and> stornieren_callback ''cancel_abort'' wednesday_noon selecting_user_data
         \<lparr>sheet = toner_sheet, faults = []\<rparr>
     = (Inr ConversationHandler_END, selecting_user_data, \<lparr>sheet = toner_sheet, faults = []\<rparr>)
   \<and> selecting_user_data \<noteq> []
   \<and> (\<forall>now user_data s. stornieren_callback ''cancel_abort'' now user_data s
          = (Inr ConversationHandler_END, user_data, s))"
proof -
  have "stornieren_start 42 [] \<lparr>sheet = toner_sheet, faults = []\<rparr>
     = (Inr STORNO_AUSWAHL, selecting_user_data, \<lparr>sheet = toner_sheet, faults = []\<rparr>)"
    by code_simp
  moreover have "selecting_user_data \<noteq> []"
    by (simp add: selecting_user_data_def)
  ultimately show ?thesis
    by (simp add: stornieren_callback_def)
qed

subsection \<open>The start of the week keeps the microsecond\<close>

text \<open>
  Line 251 resets hour, minute and second of \<open>now\<close> but not its microsecond, so the
  window starts a fraction of a second after Monday 00:00:00: a request stamped
  with Monday 00:00:00 is counted when \<open>now\<close> has microsecond 0 and is not counted
  otherwise.
\<close>

theorem week_start_keeps_microsecond:
  "week_start_of wednesday_noon = Inr (739012, 0, 0, 0, 7)
   \<and> fst (get_weekly_summary wednesday_noon \<lparr>sheet = monday_sheet, faults = []\<rparr>)
       = Inr [(''total'', PInt 0), (''pending'', PInt 0), (''ordered'', PInt 0),
              (''cancelled'', PInt 0), (''by_kostenstelle'', PDict [])]
   \<and> fst (get_weekly_summary (wednesday_noon\<lparr>microsecond := 0\<rparr>)
            \<lparr>sheet = monday_sheet, faults = []\<rparr>)
       = Inr [(''total'', PInt 1), (''pending'', PInt 1), (''ordered'', PInt 0),
              (''cancelled'', PInt 0), (''by_kostenstelle'', PDict [(''Lager'', PInt 1)])]"
  by code_simp

end
